theory Spec2Isabelle
  imports Main "HOL-Library.Word"
begin

unbundle bit_operations_syntax

section \<open>Python values, exceptions and calls with effects\<close>

text \<open>
  The plugin \<^verbatim>\<open>plugins/file_transfer_plugin.py\<close> is Python 3 code (it calls
  \<^verbatim>\<open>subprocess.run\<close>). Byte strings are lists of 8-bit words, text strings are
  \<^typ>\<open>string\<close>. Every exception the plugin raises, or that the interpreter raises while
  running the plugin's own statements, is a value of \<open>error\<close>:
  \<^item> \<open>NameError n\<close>: the statement reads the name \<open>n\<close>, which no scope binds;
  \<^item> \<open>AttributeError a\<close>: attribute \<open>a\<close> is read from an object that has none;
  \<^item> \<open>TypeError\<close>: an operation is applied to operands of the wrong type;
  \<^item> \<open>OSError errno msg\<close>: an exception of the operating system or of a client library
    (Python 3 names \<^verbatim>\<open>IOError\<close> and \<^verbatim>\<open>OSError\<close> the same class);
  \<^item> \<open>FileExistsError p\<close>: the exception the plugin itself raises as
    \<^verbatim>\<open>FileExistsError(localpath)\<close>; it has no \<^verbatim>\<open>errno\<close>;
  \<^item> \<open>RuntimeError\<close>: raised by \<^verbatim>\<open>contextlib\<close> when the object behind a context
    manager does not behave as a generator that yields once;
  \<^item> \<open>UnsupportedOperation\<close>: a file is read that was not opened for reading.

  Calls of \<^verbatim>\<open>logging.info\<close> write to the log only; they are left out.
\<close>

type_synonym byte = "8 word"
type_synonym bytes = "byte list"

datatype error =
    KeyError string
  | NotImplementedError string
  | FileExistsError string
  | AirflowException string
  | TypeError
  | NameError string
  | AttributeError string
  | OSError int string
  | RuntimeError
  | UnsupportedOperation

definition ENOENT :: int where "ENOENT = 2"
definition EEXIST :: int where "EEXIST = 17"

text \<open>
  A call that may raise and may change the world outside the interpreter (local disk,
  remote servers) takes the world and returns the outcome with the world it leaves.
\<close>

type_synonym ('a, 'w) io = "'w \<Rightarrow> (error + 'a) \<times> 'w"

definition startswith :: "string \<Rightarrow> string \<Rightarrow> bool" where
  "startswith s p = (take (length p) s = p)"

section \<open>The backend registry and the operators' constructors\<close>

datatype hook_class = CommonFTPHook | CommonFTPSHook | CommonS3Hook | CommonFSHook

definition hook_registry :: "(string \<times> hook_class) list" where
  "hook_registry =
     [(''ftp'', CommonFTPHook), (''sftp'', CommonFTPSHook),
      (''s3'', CommonS3Hook), (''local'', CommonFSHook)]"

text \<open>\<^verbatim>\<open>CommonFileHook.by_type\<close>: a dictionary literal indexed by \<open>conn_type\<close>.\<close>

definition by_type :: "string \<Rightarrow> error + hook_class" where
  "by_type conn_type =
     (case map_of hook_registry conn_type of
        Some cls \<Rightarrow> Inr cls
      | None \<Rightarrow> Inl (KeyError conn_type))"

text \<open>
  The operators keep the fields their constructors assign. The call of the base class's
  constructor (\<^verbatim>\<open>BaseOperator.__init__\<close>, Airflow's) is outside the plugin.
\<close>

record source_fields =
  source_type :: string
  source_conn_id :: "string option"
  source_path :: string
  SourceHook :: hook_class

record FileTransferOperator = source_fields +
  dest_type :: string
  dest_conn_id :: "string option"
  dest_path :: string
  DestHook :: hook_class

record FileTransformOperator = FileTransferOperator +
  transform_script :: string
  use_stdin :: bool
  use_stdout :: bool

record DownloadOperator = source_fields +
  dest_path :: "string option"

type_synonym FileDownloadOperator = DownloadOperator
type_synonym FolderDownloadOperator = DownloadOperator
type_synonym FileAvailabilitySensor = source_fields
type_synonym FolderAvailabilitySensor = source_fields

text \<open>
  The \<open>paths\<close> argument of the cleanup operator is any Python object: a string, a
  sequence of strings, or an object that cannot be iterated (\<open>NonIterable\<close>).
\<close>

datatype paths_value = Str string | Seq "string list" | NonIterable

record CleanupOperator =
  conn_type :: string
  conn_id :: "string option"
  paths :: paths_value
  ConnHook :: hook_class

definition FileDownloadOperator_init ::
  "string \<Rightarrow> string \<Rightarrow> string option \<Rightarrow> string option \<Rightarrow> error + FileDownloadOperator" where
  "FileDownloadOperator_init src_type src_path src_conn_id dst_path =
     (case by_type src_type of
        Inl e \<Rightarrow> Inl e
      | Inr cls \<Rightarrow>
          Inr \<lparr>source_type = src_type, source_conn_id = src_conn_id,
               source_path = src_path, SourceHook = cls, dest_path = dst_path\<rparr>)"

definition FolderDownloadOperator_init ::
  "string \<Rightarrow> string \<Rightarrow> string option \<Rightarrow> string option \<Rightarrow> error + FolderDownloadOperator" where
  "FolderDownloadOperator_init src_type src_path src_conn_id dst_path =
     (case by_type src_type of
        Inl e \<Rightarrow> Inl e
      | Inr cls \<Rightarrow>
          Inr \<lparr>source_type = src_type, source_conn_id = src_conn_id,
               source_path = src_path, SourceHook = cls, dest_path = dst_path\<rparr>)"

definition FileTransferOperator_init ::
  "string \<Rightarrow> string \<Rightarrow> string \<Rightarrow> string \<Rightarrow> string option \<Rightarrow> string option
     \<Rightarrow> error + FileTransferOperator" where
  "FileTransferOperator_init src_type dst_type src_path dst_path src_conn_id dst_conn_id =
     (case by_type src_type of
        Inl e \<Rightarrow> Inl e
      | Inr src_cls \<Rightarrow>
          (case by_type dst_type of
             Inl e \<Rightarrow> Inl e
           | Inr dst_cls \<Rightarrow>
               Inr \<lparr>source_type = src_type, source_conn_id = src_conn_id,
                    source_path = src_path, SourceHook = src_cls,
                    dest_type = dst_type, dest_conn_id = dst_conn_id,
                    FileTransferOperator.dest_path = dst_path, DestHook = dst_cls\<rparr>))"

text \<open>
  \<^verbatim>\<open>FileTransformOperator.__init__\<close> first runs the constructor of its base class,
  then stores the script and the two wiring flags (both default to true).
\<close>

definition FileTransformOperator_init ::
  "string \<Rightarrow> bool \<Rightarrow> bool \<Rightarrow> string \<Rightarrow> string \<Rightarrow> string \<Rightarrow> string
     \<Rightarrow> string option \<Rightarrow> string option \<Rightarrow> error + FileTransformOperator" where
  "FileTransformOperator_init script stdin_flag stdout_flag
       src_type dst_type src_path dst_path src_conn_id dst_conn_id =
     (case FileTransferOperator_init src_type dst_type src_path dst_path
             src_conn_id dst_conn_id of
        Inl e \<Rightarrow> Inl e
      | Inr base \<Rightarrow>
          Inr (FileTransferOperator.extend base
                 \<lparr>transform_script = script, use_stdin = stdin_flag,
                  use_stdout = stdout_flag\<rparr>))"

text \<open>
  \<^verbatim>\<open>FileAvailabilitySensor.__init__\<close> accepts a \<open>dest_path\<close> and drops it;
  \<^verbatim>\<open>FolderAvailabilitySensor\<close> inherits the constructor.
\<close>

definition FileAvailabilitySensor_init ::
  "string \<Rightarrow> string \<Rightarrow> string option \<Rightarrow> string option \<Rightarrow> error + FileAvailabilitySensor" where
  "FileAvailabilitySensor_init src_type src_path src_conn_id dst_path =
     (case by_type src_type of
        Inl e \<Rightarrow> Inl e
      | Inr cls \<Rightarrow>
          Inr \<lparr>source_type = src_type, source_conn_id = src_conn_id,
               source_path = src_path, SourceHook = cls\<rparr>)"

definition FolderAvailabilitySensor_init ::
  "string \<Rightarrow> string \<Rightarrow> string option \<Rightarrow> string option \<Rightarrow> error + FolderAvailabilitySensor" where
  "FolderAvailabilitySensor_init = FileAvailabilitySensor_init"

text \<open>
  \<^verbatim>\<open>CleanupOperator.__init__\<close>: a single string becomes a one-element list before
  the hook class is looked up.
\<close>

definition CleanupOperator_init ::
  "paths_value \<Rightarrow> string option \<Rightarrow> string \<Rightarrow> error + CleanupOperator" where
  "CleanupOperator_init ps cid ctype =
     (let ps' = (case ps of Str s \<Rightarrow> Seq [s] | _ \<Rightarrow> ps) in
      case by_type ctype of
        Inl e \<Rightarrow> Inl e
      | Inr cls \<Rightarrow>
          Inr \<lparr>conn_type = ctype, conn_id = cid, paths = ps', ConnHook = cls\<rparr>)"

section \<open>The platform under the plugin\<close>

text \<open>
  Everything the plugin calls but does not define is a field of the platform: the
  operating system's file calls, \<^verbatim>\<open>tempfile.mkstemp\<close>, the methods Airflow's
  \<^verbatim>\<open>FTPHook\<close> and \<^verbatim>\<open>S3Hook\<close> supply, and the \<^verbatim>\<open>pysftp\<close>
  connection. The plugin's functions take the platform as their first argument, and
  the theorems hold for every platform.
\<close>

datatype file_arg = Path string | Buffer bytes

record SFTPAttributes =
  filename :: string
  st_mode :: "32 word"

text \<open>
  A \<^verbatim>\<open>pysftp.Connection\<close>: \<open>listing d\<close> holds the entries of the remote directory
  that \<^verbatim>\<open>chdir(d)\<close> enters, and is \<open>None\<close> when the server has no such directory;
  \<open>isfile\<close> and \<open>isdir\<close> are the connection's native tests.
\<close>

record sftp_connection =
  cwd :: string
  listing :: "string \<Rightarrow> SFTPAttributes list option"
  remote_files :: "string \<Rightarrow> bytes option"
  isfile :: "string \<Rightarrow> bool"
  isdir :: "string \<Rightarrow> bool"

text \<open>
  What a child process leaves behind: the two fields of \<^verbatim>\<open>CompletedProcess\<close> the
  plugin reads (\<open>stderr\<close> is a byte string, since the plugin captures it with
  \<^verbatim>\<open>stderr=subprocess.PIPE\<close> and asks for no text mode), the bytes written to its
  standard output, and the files it wrote by name.
\<close>

record process_result =
  returncode :: int
  stderr :: bytes
  stdout_data :: bytes
  files_written :: "(string \<times> bytes) list"

text \<open>
  \<open>FTPHook_retrieve_file\<close> and \<open>FTPHook_store_file\<close> are the methods of Airflow's
  \<^verbatim>\<open>FTPHook\<close>, run on an instance of the given class. \<open>subprocess_run argv input
  files\<close> runs \<open>argv\<close> with no shell; \<open>input\<close> is what the child can read from its
  standard input when that is redirected, \<open>files\<close> the temporary files it can open by
  name.
\<close>

text \<open>
  A file object as the builtin \<^verbatim>\<open>open\<close> returns it: whether it can be read, and the
  lines that iterating it would yield.
\<close>

record file_object =
  readable :: bool
  pending :: "bytes list"

record 'w platform =
  os_path_exists :: "string \<Rightarrow> 'w \<Rightarrow> bool"
  os_path_isdir :: "string \<Rightarrow> 'w \<Rightarrow> bool"
  os_makedirs :: "string \<Rightarrow> (unit, 'w) io"
  copyfile :: "string \<Rightarrow> string \<Rightarrow> (unit, 'w) io"
  copytree :: "string \<Rightarrow> string \<Rightarrow> (unit, 'w) io"
  rmtree :: "string \<Rightarrow> (unit, 'w) io"
  unlink :: "string \<Rightarrow> (unit, 'w) io"
  mkstemp :: "(int \<times> string, 'w) io"
  open_wb :: "string \<Rightarrow> (unit, 'w) io"
  builtin_open :: "string \<Rightarrow> string \<Rightarrow> (file_object, 'w) io"
  write_local :: "string \<Rightarrow> bytes \<Rightarrow> (unit, 'w) io"
  S3Hook_init :: "string option \<Rightarrow> (unit, 'w) io"
  FTPHook_retrieve_file ::
    "hook_class \<Rightarrow> string option \<Rightarrow> string \<Rightarrow> file_arg \<Rightarrow> (file_arg, 'w) io"
  FTPHook_store_file ::
    "hook_class \<Rightarrow> string option \<Rightarrow> string \<Rightarrow> file_arg \<Rightarrow> (unit, 'w) io"
  pysftp_Connection :: "string option \<Rightarrow> 'w \<Rightarrow> error + sftp_connection"
  pysftp_get_d :: "sftp_connection \<Rightarrow> string \<Rightarrow> string \<Rightarrow> (unit, 'w) io"
  NamedTemporaryFile :: "(string, 'w) io"
  close_temporary :: "string \<Rightarrow> 'w \<Rightarrow> 'w"
  subprocess_run ::
    "string list \<Rightarrow> bytes option \<Rightarrow> (string \<times> bytes) list \<Rightarrow> (process_result, 'w) io"

subsection \<open>Paths and patterns (\<^verbatim>\<open>posixpath\<close>, \<^verbatim>\<open>stat\<close>, \<^verbatim>\<open>fnmatch\<close>)\<close>

definition rstrip :: "char \<Rightarrow> string \<Rightarrow> string" where
  "rstrip c s = rev (dropWhile (\<lambda>x. x = c) (rev s))"

text \<open>
  \<^verbatim>\<open>os.path.split\<close>: the tail is what follows the last slash; the head loses its
  trailing slashes unless it consists of slashes only.
\<close>

definition os_path_split :: "string \<Rightarrow> string \<times> string" where
  "os_path_split p =
     (let tail = rev (takeWhile (\<lambda>x. x \<noteq> CHR ''/'') (rev p));
          head = take (length p - length tail) p
      in (if head \<noteq> [] \<and> \<not> list_all (\<lambda>x. x = CHR ''/'') head
          then rstrip (CHR ''/'') head else head, tail))"

definition os_path_dirname :: "string \<Rightarrow> string" where
  "os_path_dirname p = fst (os_path_split p)"

definition S_IFMT :: "32 word \<Rightarrow> 32 word" where
  "S_IFMT m = m AND 61440"

definition S_ISREG :: "32 word \<Rightarrow> bool" where
  "S_ISREG m = (S_IFMT m = 32768)"

definition S_ISDIR :: "32 word \<Rightarrow> bool" where
  "S_ISDIR m = (S_IFMT m = 16384)"

text \<open>
  \<^verbatim>\<open>fnmatch.fnmatch\<close> on a POSIX host (no case folding): \<open>*\<close> matches any run of
  characters, \<open>?\<close> any one character, \<open>[seq]\<close> one character of a set of characters
  and ranges, \<open>[!seq]\<close> one character outside it; a bracket that is never closed is a
  literal. A range whose bounds are reversed holds no character.
\<close>

datatype glob = Star | AnyChar | Lit char | CharSet bool "(char \<times> char) list"

fun set_items :: "string \<Rightarrow> (char \<times> char) list" where
  "set_items (lo # m # hi # rest) =
     (if m = CHR ''-'' then (lo, hi) # set_items rest else (lo, lo) # set_items (m # hi # rest))"
| "set_items (c # rest) = (c, c) # set_items rest"
| "set_items [] = []"

definition find_close :: "string \<Rightarrow> nat option" where
  "find_close rest =
     (let k0 = (if rest \<noteq> [] \<and> hd rest = CHR ''!'' then 1 else 0);
          k1 = (if k0 < length rest \<and> rest ! k0 = CHR '']'' then k0 + 1 else k0);
          scan = drop k1 rest
      in if CHR '']'' \<in> set scan
         then Some (k1 + length (takeWhile (\<lambda>x. x \<noteq> CHR '']'') scan))
         else None)"

definition char_set :: "string \<Rightarrow> glob" where
  "char_set stuff =
     (if stuff \<noteq> [] \<and> hd stuff = CHR ''!'' then CharSet True (set_items (tl stuff))
      else CharSet False (set_items stuff))"

fun translate :: "string \<Rightarrow> glob list" where
  "translate [] = []"
| "translate (c # rest) =
     (if c = CHR ''*'' then Star # translate rest
      else if c = CHR ''?'' then AnyChar # translate rest
      else if c = CHR ''['' then
        (case find_close rest of
           None \<Rightarrow> Lit c # translate rest
         | Some j \<Rightarrow> char_set (take j rest) # translate (drop (Suc j) rest))
      else Lit c # translate rest)"

fun in_range :: "char \<Rightarrow> char \<times> char \<Rightarrow> bool" where
  "in_range c (lo, hi) = ((of_char lo :: nat) \<le> of_char c \<and> (of_char c :: nat) \<le> of_char hi)"

fun glob_item :: "glob \<Rightarrow> char \<Rightarrow> bool" where
  "glob_item Star c = True"
| "glob_item AnyChar c = True"
| "glob_item (Lit d) c = (c = d)"
| "glob_item (CharSet neg rs) c = (list_ex (in_range c) rs \<noteq> neg)"

fun glob_match :: "glob list \<Rightarrow> string \<Rightarrow> bool" where
  "glob_match [] s = (s = [])"
| "glob_match (Star # gs) [] = glob_match gs []"
| "glob_match (Star # gs) (c # s) = (glob_match gs (c # s) \<or> glob_match (Star # gs) s)"
| "glob_match (g # gs) [] = False"
| "glob_match (g # gs) (c # s) = (glob_item g c \<and> glob_match gs s)"

definition fnmatch :: "string \<Rightarrow> string \<Rightarrow> bool" where
  "fnmatch name pat = glob_match (translate pat) name"

section \<open>The hooks\<close>

subsection \<open>\<^verbatim>\<open>makedirs\<close> and \<^verbatim>\<open>CommonFSHook\<close>\<close>

text \<open>
  The compatibility function \<^verbatim>\<open>makedirs(path, exist_ok)\<close>: true when the directory
  was created, false when it was there already and \<open>exist_ok\<close> allows it; every other
  failure of \<^verbatim>\<open>os.makedirs\<close> is raised again.
\<close>

definition makedirs :: "'w platform \<Rightarrow> string \<Rightarrow> bool \<Rightarrow> (bool, 'w) io" where
  "makedirs P path exist_ok w =
     (case os_makedirs P path w of
        (Inr _, w') \<Rightarrow> (Inr True, w')
      | (Inl e, w') \<Rightarrow>
          (case e of
             OSError errno msg \<Rightarrow>
               if \<not> (exist_ok \<and> errno = EEXIST \<and> os_path_isdir P path w')
               then (Inl e, w') else (Inr False, w')
           | _ \<Rightarrow> (Inl e, w')))"

definition CommonFSHook_download ::
  "'w platform \<Rightarrow> string \<Rightarrow> string \<Rightarrow> bool \<Rightarrow> (unit, 'w) io" where
  "CommonFSHook_download P remotepath localpath replace w =
     (if \<not> replace \<and> os_path_exists P localpath w
      then (Inl (FileExistsError localpath), w)
      else copyfile P remotepath localpath w)"

definition CommonFSHook_download_folder ::
  "'w platform \<Rightarrow> string \<Rightarrow> string \<Rightarrow> bool \<Rightarrow> (unit, 'w) io" where
  "CommonFSHook_download_folder P remotepath localpath replace w =
     (if os_path_exists P localpath w then
        (if replace then
           (case rmtree P localpath w of
              (Inl e, w') \<Rightarrow> (Inl e, w')
            | (Inr _, w') \<Rightarrow> copytree P remotepath localpath w')
         else (Inl (FileExistsError localpath), w))
      else copytree P remotepath localpath w)"

definition CommonFSHook_delete ::
  "'w platform \<Rightarrow> string \<Rightarrow> bool option \<Rightarrow> (unit, 'w) io" where
  "CommonFSHook_delete P path is_dir w =
     (let is_dir' = (case is_dir of None \<Rightarrow> os_path_isdir P path w | Some b \<Rightarrow> b)
      in if is_dir' then rmtree P path w else unlink P path w)"

subsection \<open>\<^verbatim>\<open>CommonFTPHookMixin\<close>\<close>

text \<open>
  The mixin calls \<^verbatim>\<open>self.retrieve_file\<close>, \<^verbatim>\<open>self.retrieve_folder\<close> and
  \<^verbatim>\<open>self.store_file\<close>, which the class it is mixed into supplies; they are
  arguments here.
\<close>

definition CommonFTPHookMixin_download ::
  "'w platform \<Rightarrow> (string \<Rightarrow> file_arg \<Rightarrow> (file_arg, 'w) io) \<Rightarrow> string \<Rightarrow> string \<Rightarrow> bool
     \<Rightarrow> (unit, 'w) io" where
  "CommonFTPHookMixin_download P retrieve_file remotepath localpath replace w =
     (if \<not> replace \<and> os_path_exists P localpath w
      then (Inl (FileExistsError localpath), w)
      else
        (case makedirs P (os_path_dirname localpath) True w of
           (Inl e, w1) \<Rightarrow> (Inl e, w1)
         | (Inr _, w1) \<Rightarrow>
             (case retrieve_file remotepath (Path localpath) w1 of
                (Inl e, w2) \<Rightarrow> (Inl e, w2)
              | (Inr _, w2) \<Rightarrow> (Inr (), w2))))"

definition CommonFTPHookMixin_download_folder ::
  "'w platform \<Rightarrow> (string \<Rightarrow> string \<Rightarrow> (unit, 'w) io) \<Rightarrow> string \<Rightarrow> string \<Rightarrow> bool
     \<Rightarrow> (unit, 'w) io" where
  "CommonFTPHookMixin_download_folder P retrieve_folder remotepath localpath replace w =
     (case (if os_path_exists P localpath w then
              (if replace then rmtree P localpath w
               else (Inl (FileExistsError localpath), w))
            else (Inr (), w)) of
        (Inl e, w1) \<Rightarrow> (Inl e, w1)
      | (Inr _, w1) \<Rightarrow>
          (case makedirs P localpath True w1 of
             (Inl e, w2) \<Rightarrow> (Inl e, w2)
           | (Inr _, w2) \<Rightarrow> retrieve_folder remotepath localpath w2))"

record mode_params =
  is_binary :: bool
  can_read :: bool
  can_write :: bool
  replace :: bool

definition parse_mode :: "string \<Rightarrow> mode_params" where
  "parse_mode mode =
     \<lparr>is_binary = (CHR ''b'' \<in> set mode),
      can_read = (mode = [] \<or> startswith mode ''r''),
      can_write = (startswith mode ''w'' \<or> startswith mode ''r+'' \<or> startswith mode ''a''),
      replace = startswith mode ''w''\<rparr>"

text \<open>
  \<^verbatim>\<open>CommonFTPHookMixin.open\<close> is decorated with \<^verbatim>\<open>@contextmanager\<close> but has no
  \<^verbatim>\<open>yield\<close>: its body runs when \<^verbatim>\<open>hook.open(path, mode)\<close> is called, and what it
  returns is the generator that the \<^verbatim>\<open>with\<close> statement then advances. The body
  either raises, or returns the generator of \<^verbatim>\<open>_open_for_read\<close> or of
  \<^verbatim>\<open>_open_for_write\<close>, or falls off its end and returns \<^verbatim>\<open>None\<close>.
\<close>

datatype stream_generator =
    open_for_read string mode_params
  | open_for_write string mode_params

definition CommonFTPHookMixin_open :: "string \<Rightarrow> string \<Rightarrow> error + stream_generator option" where
  "CommonFTPHookMixin_open remotepath mode =
     (let mp = parse_mode mode in
      if can_read mp \<and> can_write mp
        then Inl (NotImplementedError ''Cannot open a read/write FTP stream.'')
      else if can_write mp \<and> \<not> replace mp
        then Inl (NotImplementedError ''Cannot append to a file over FTP.'')
      else if can_read mp then Inr (Some (open_for_read remotepath mp))
      else if can_write mp then Inr (Some (open_for_write remotepath mp))
      else Inr None)"

text \<open>
  Entering the \<^verbatim>\<open>with\<close> statement advances the generator to its \<^verbatim>\<open>yield\<close>.
  \<^verbatim>\<open>_open_for_read\<close> reads the name \<^verbatim>\<open>path\<close>, which is bound nowhere (its
  parameter is \<^verbatim>\<open>remotepath\<close>). \<^verbatim>\<open>_open_for_write\<close> stores the still empty
  buffer on the server and then yields it. Advancing \<^verbatim>\<open>None\<close> is a type error.
  The result is the content of the \<^verbatim>\<open>BytesIO\<close> buffer that the statement binds.
\<close>

definition stream_enter ::
  "(string \<Rightarrow> file_arg \<Rightarrow> (unit, 'w) io) \<Rightarrow> stream_generator option \<Rightarrow> (bytes, 'w) io" where
  "stream_enter store_file gen w =
     (case gen of
        None \<Rightarrow> (Inl TypeError, w)
      | Some (open_for_read remotepath mp) \<Rightarrow> (Inl (NameError ''path''), w)
      | Some (open_for_write remotepath mp) \<Rightarrow>
          (case store_file remotepath (Buffer []) w of
             (Inl e, w') \<Rightarrow> (Inl e, w')
           | (Inr _, w') \<Rightarrow> (Inr [], w')))"

text \<open>\<^verbatim>\<open>with hook.open(remotepath, mode) as stream\<close>, up to the binding of the stream.\<close>

definition CommonFTPHookMixin_with_open ::
  "(string \<Rightarrow> file_arg \<Rightarrow> (unit, 'w) io) \<Rightarrow> string \<Rightarrow> string \<Rightarrow> (bytes, 'w) io" where
  "CommonFTPHookMixin_with_open store_file remotepath mode w =
     (case CommonFTPHookMixin_open remotepath mode of
        Inl e \<Rightarrow> (Inl e, w)
      | Inr gen \<Rightarrow> stream_enter store_file gen w)"

subsection \<open>\<^verbatim>\<open>PySFTPHook\<close>\<close>

definition PySFTPHook_get_conn :: "'w platform \<Rightarrow> string option \<Rightarrow> 'w \<Rightarrow> error + sftp_connection" where
  "PySFTPHook_get_conn P ftp_conn_id w = pysftp_Connection P ftp_conn_id w"

text \<open>
  \<^verbatim>\<open>Connection.chdir\<close> raises \<^verbatim>\<open>IOError\<close> when the server has no such directory;
  \<^verbatim>\<open>Connection.listdir_attr()\<close> lists the current directory.
\<close>

definition sftp_chdir :: "string \<Rightarrow> sftp_connection \<Rightarrow> error + sftp_connection" where
  "sftp_chdir d conn =
     (case listing conn d of
        None \<Rightarrow> Inl (OSError ENOENT d)
      | Some _ \<Rightarrow> Inr (conn\<lparr>cwd := d\<rparr>))"

definition listdir_attr :: "sftp_connection \<Rightarrow> error + SFTPAttributes list" where
  "listdir_attr conn =
     (case listing conn (cwd conn) of
        None \<Rightarrow> Inl (OSError ENOENT (cwd conn))
      | Some entries \<Rightarrow> Inr entries)"

text \<open>
  \<^verbatim>\<open>_match_basename\<close>: inside \<^verbatim>\<open>with conn.cd(dirname)\<close> the names of the listed
  entries that pass the mode filter and match the pattern. Leaving the block returns the
  session to the directory it was in; the connection is not used again.
\<close>

definition PySFTPHook_match_basename ::
  "'w platform \<Rightarrow> string option \<Rightarrow> string \<Rightarrow> string \<Rightarrow> (32 word \<Rightarrow> bool) option \<Rightarrow> 'w
     \<Rightarrow> error + string list" where
  "PySFTPHook_match_basename P ftp_conn_id dirname basepattern modefilter w =
     (case PySFTPHook_get_conn P ftp_conn_id w of
        Inl e \<Rightarrow> Inl e
      | Inr conn \<Rightarrow>
          (let mf = (case modefilter of None \<Rightarrow> (\<lambda>m. True) | Some f \<Rightarrow> f) in
           case sftp_chdir dirname conn of
             Inl e \<Rightarrow> Inl e
           | Inr conn' \<Rightarrow>
               (case listdir_attr conn' of
                  Inl e \<Rightarrow> Inl e
                | Inr entries \<Rightarrow>
                    Inr (map filename
                          (filter (\<lambda>a. mf (st_mode a) \<and> fnmatch (filename a) basepattern)
                             entries)))))"

definition PySFTPHook_file_exists ::
  "'w platform \<Rightarrow> string option \<Rightarrow> string \<Rightarrow> 'w \<Rightarrow> error + bool" where
  "PySFTPHook_file_exists P ftp_conn_id remote_full_path w =
     (case os_path_split remote_full_path of
        (pathhead, pathtail) \<Rightarrow>
          (case PySFTPHook_match_basename P ftp_conn_id pathhead pathtail (Some S_ISREG) w of
             Inl e \<Rightarrow> Inl e
           | Inr basenames \<Rightarrow> Inr (length basenames > 0)))"

definition PySFTPHook_folder_exists ::
  "'w platform \<Rightarrow> string option \<Rightarrow> string \<Rightarrow> 'w \<Rightarrow> error + bool" where
  "PySFTPHook_folder_exists P ftp_conn_id remote_full_path w =
     (case os_path_split (rstrip (CHR ''/'') remote_full_path) of
        (pathhead, pathtail) \<Rightarrow>
          (case PySFTPHook_match_basename P ftp_conn_id pathhead pathtail (Some S_ISDIR) w of
             Inl e \<Rightarrow> Inl e
           | Inr basenames \<Rightarrow> Inr (length basenames > 0)))"

text \<open>
  \<^verbatim>\<open>PySFTPHook.retrieve_file\<close>: a path is opened for writing (which empties the
  file) before the remote file is fetched into it; a buffer receives the bytes.
\<close>

definition PySFTPHook_retrieve_file ::
  "'w platform \<Rightarrow> string option \<Rightarrow> string \<Rightarrow> file_arg \<Rightarrow> (file_arg, 'w) io" where
  "PySFTPHook_retrieve_file P ftp_conn_id remote_full_path local_full_path_or_buffer w =
     (case PySFTPHook_get_conn P ftp_conn_id w of
        Inl e \<Rightarrow> (Inl e, w)
      | Inr conn \<Rightarrow>
          (case local_full_path_or_buffer of
             Path p \<Rightarrow>
               (case open_wb P p w of
                  (Inl e, w1) \<Rightarrow> (Inl e, w1)
                | (Inr _, w1) \<Rightarrow>
                    (case remote_files conn remote_full_path of
                       None \<Rightarrow> (Inl (OSError ENOENT remote_full_path), w1)
                     | Some data \<Rightarrow>
                         (case write_local P p data w1 of
                            (Inl e, w2) \<Rightarrow> (Inl e, w2)
                          | (Inr _, w2) \<Rightarrow> (Inr (Path p), w2))))
           | Buffer b \<Rightarrow>
               (case remote_files conn remote_full_path of
                  None \<Rightarrow> (Inl (OSError ENOENT remote_full_path), w)
                | Some data \<Rightarrow> (Inr (Buffer (b @ data)), w))))"

definition PySFTPHook_retrieve_folder ::
  "'w platform \<Rightarrow> string option \<Rightarrow> string \<Rightarrow> string \<Rightarrow> (unit, 'w) io" where
  "PySFTPHook_retrieve_folder P ftp_conn_id remote_full_path local_full_path w =
     (case PySFTPHook_get_conn P ftp_conn_id w of
        Inl e \<Rightarrow> (Inl e, w)
      | Inr conn \<Rightarrow> pysftp_get_d P conn remote_full_path local_full_path w)"

subsection \<open>Method lookup on the four hook classes\<close>

text \<open>
  \<^verbatim>\<open>CommonFTPHook\<close> is \<^verbatim>\<open>(FTPHook, CommonFTPHookMixin)\<close>, \<^verbatim>\<open>CommonFTPSHook\<close> is
  \<^verbatim>\<open>(PySFTPHook, CommonFTPHookMixin)\<close>, \<^verbatim>\<open>CommonS3Hook\<close> is
  \<^verbatim>\<open>(S3Hook, CommonFileHook)\<close>, \<^verbatim>\<open>CommonFSHook\<close> is \<^verbatim>\<open>(CommonFileHook)\<close>.
  Airflow's \<^verbatim>\<open>FTPHook\<close> and \<^verbatim>\<open>S3Hook\<close> define none of \<^verbatim>\<open>download\<close>,
  \<^verbatim>\<open>download_folder\<close>, \<^verbatim>\<open>delete\<close>, \<^verbatim>\<open>file_exists\<close>, \<^verbatim>\<open>folder_exists\<close> and
  \<^verbatim>\<open>retrieve_folder\<close>, so a method that the plugin's classes do not define either is
  the one of \<^verbatim>\<open>CommonFileHook\<close>, which raises \<^verbatim>\<open>NotImplementedError\<close>, or is missing.
  Of the constructors only \<^verbatim>\<open>S3Hook.__init__\<close> does more than store the connection id.
\<close>

definition hook_init :: "'w platform \<Rightarrow> hook_class \<Rightarrow> string option \<Rightarrow> (unit, 'w) io" where
  "hook_init P cls cid w =
     (case cls of CommonS3Hook \<Rightarrow> S3Hook_init P cid w | _ \<Rightarrow> (Inr (), w))"

definition hook_retrieve_file ::
  "'w platform \<Rightarrow> hook_class \<Rightarrow> string option \<Rightarrow> string \<Rightarrow> file_arg \<Rightarrow> (file_arg, 'w) io" where
  "hook_retrieve_file P cls cid =
     (case cls of
        CommonFTPSHook \<Rightarrow> PySFTPHook_retrieve_file P cid
      | _ \<Rightarrow> FTPHook_retrieve_file P cls cid)"

definition hook_retrieve_folder ::
  "'w platform \<Rightarrow> hook_class \<Rightarrow> string option \<Rightarrow> string \<Rightarrow> string \<Rightarrow> (unit, 'w) io" where
  "hook_retrieve_folder P cls cid remotepath localpath w =
     (case cls of
        CommonFTPSHook \<Rightarrow> PySFTPHook_retrieve_folder P cid remotepath localpath w
      | _ \<Rightarrow> (Inl (AttributeError ''retrieve_folder''), w))"

definition hook_download ::
  "'w platform \<Rightarrow> hook_class \<Rightarrow> string option \<Rightarrow> string \<Rightarrow> string \<Rightarrow> bool \<Rightarrow> (unit, 'w) io" where
  "hook_download P cls cid remotepath localpath repl w =
     (case cls of
        CommonFSHook \<Rightarrow> CommonFSHook_download P remotepath localpath repl w
      | CommonS3Hook \<Rightarrow> (Inl (NotImplementedError []), w)
      | _ \<Rightarrow>
          CommonFTPHookMixin_download P (hook_retrieve_file P cls cid)
            remotepath localpath repl w)"

definition hook_download_folder ::
  "'w platform \<Rightarrow> hook_class \<Rightarrow> string option \<Rightarrow> string \<Rightarrow> string \<Rightarrow> bool \<Rightarrow> (unit, 'w) io" where
  "hook_download_folder P cls cid remotepath localpath repl w =
     (case cls of
        CommonFSHook \<Rightarrow> CommonFSHook_download_folder P remotepath localpath repl w
      | CommonS3Hook \<Rightarrow> (Inl (NotImplementedError []), w)
      | _ \<Rightarrow>
          CommonFTPHookMixin_download_folder P (hook_retrieve_folder P cls cid)
            remotepath localpath repl w)"

definition hook_delete :: "'w platform \<Rightarrow> hook_class \<Rightarrow> string \<Rightarrow> (unit, 'w) io" where
  "hook_delete P cls path w =
     (case cls of
        CommonFSHook \<Rightarrow> CommonFSHook_delete P path None w
      | _ \<Rightarrow> (Inl (NotImplementedError []), w))"

definition hook_file_exists ::
  "'w platform \<Rightarrow> hook_class \<Rightarrow> string option \<Rightarrow> string \<Rightarrow> 'w \<Rightarrow> error + bool" where
  "hook_file_exists P cls cid path w =
     (case cls of
        CommonFTPSHook \<Rightarrow> PySFTPHook_file_exists P cid path w
      | _ \<Rightarrow> Inl (NotImplementedError []))"

definition hook_folder_exists ::
  "'w platform \<Rightarrow> hook_class \<Rightarrow> string option \<Rightarrow> string \<Rightarrow> 'w \<Rightarrow> error + bool" where
  "hook_folder_exists P cls cid path w =
     (case cls of
        CommonFTPSHook \<Rightarrow> PySFTPHook_folder_exists P cid path w
      | _ \<Rightarrow> Inl (NotImplementedError []))"

section \<open>The operators\<close>

subsection \<open>Download operators\<close>

text \<open>\<^verbatim>\<open>not self.dest_path\<close>: true of \<^verbatim>\<open>None\<close> and of the empty string.\<close>

definition falsy :: "string option \<Rightarrow> bool" where
  "falsy v = (case v of None \<Rightarrow> True | Some s \<Rightarrow> s = [])"

text \<open>
  \<^verbatim>\<open>tempfile.mkstemp()\<close> creates a file and returns the pair of its descriptor and
  its path. A tuple has neither a \<^verbatim>\<open>name\<close> nor a \<^verbatim>\<open>close\<close> attribute, so reading
  one raises \<^verbatim>\<open>AttributeError\<close>.
\<close>

definition tuple_getattr :: "int \<times> string \<Rightarrow> string \<Rightarrow> error + string" where
  "tuple_getattr t attr = Inl (AttributeError attr)"

text \<open>
  \<^verbatim>\<open>try: ... except e: ...\<close> where no scope binds \<^verbatim>\<open>e\<close>: when the body raises, the
  interpreter evaluates \<^verbatim>\<open>e\<close> to find the class to catch, and that raises
  \<^verbatim>\<open>NameError\<close>; when the body does not raise, the clause is never looked at.
\<close>

definition except_unbound :: "string \<Rightarrow> error + 'a \<Rightarrow> error + 'a" where
  "except_unbound n r = (case r of Inl raised \<Rightarrow> Inl (NameError n) | Inr v \<Rightarrow> Inr v)"

definition FileDownloadOperator_create_temp_dest ::
  "'w platform \<Rightarrow> FileDownloadOperator \<Rightarrow> (FileDownloadOperator, 'w) io" where
  "FileDownloadOperator_create_temp_dest P self w =
     (case mkstemp P w of
        (r, w') \<Rightarrow>
          (except_unbound ''e''
             (case r of
                Inl raised \<Rightarrow> Inl raised
              | Inr dest \<Rightarrow>
                  (case tuple_getattr dest ''name'' of
                     Inl raised \<Rightarrow> Inl raised
                   | Inr n \<Rightarrow>
                       (case tuple_getattr dest ''close'' of
                          Inl raised \<Rightarrow> Inl raised
                        | Inr _ \<Rightarrow> Inr (self\<lparr>dest_path := Some n\<rparr>)))),
           w'))"

text \<open>
  \<^verbatim>\<open>download_source\<close> builds the hook and calls its \<^verbatim>\<open>download\<close> with the default
  \<^verbatim>\<open>replace=True\<close>. With no destination path the call passes \<^verbatim>\<open>None\<close>, which the
  path functions reject with a type error (the method of \<^verbatim>\<open>CommonFileHook\<close> raises
  before it looks at its arguments).
\<close>

definition FileDownloadOperator_download_source ::
  "'w platform \<Rightarrow> FileDownloadOperator \<Rightarrow> (unit, 'w) io" where
  "FileDownloadOperator_download_source P self w =
     (case hook_init P (SourceHook self) (source_conn_id self) w of
        (Inl e, w1) \<Rightarrow> (Inl e, w1)
      | (Inr _, w1) \<Rightarrow>
          (case dest_path self of
             Some d \<Rightarrow>
               hook_download P (SourceHook self) (source_conn_id self) (source_path self) d True w1
           | None \<Rightarrow>
               (if SourceHook self = CommonS3Hook then (Inl (NotImplementedError []), w1)
                else (Inl TypeError, w1))))"

definition FileDownloadOperator_execute ::
  "'w platform \<Rightarrow> FileDownloadOperator \<Rightarrow> (string option, 'w) io" where
  "FileDownloadOperator_execute P self w =
     (case (if falsy (dest_path self) then FileDownloadOperator_create_temp_dest P self w
            else (Inr self, w)) of
        (Inl e, w1) \<Rightarrow> (Inl e, w1)
      | (Inr self1, w1) \<Rightarrow>
          (case FileDownloadOperator_download_source P self1 w1 of
             (Inl e, w2) \<Rightarrow> (Inl e, w2)
           | (Inr _, w2) \<Rightarrow> (Inr (dest_path self1), w2)))"

text \<open>The folder variant has the same three methods; it too calls \<^verbatim>\<open>mkstemp\<close>.\<close>

definition FolderDownloadOperator_create_temp_dest ::
  "'w platform \<Rightarrow> FolderDownloadOperator \<Rightarrow> (FolderDownloadOperator, 'w) io" where
  "FolderDownloadOperator_create_temp_dest P self w =
     (case mkstemp P w of
        (r, w') \<Rightarrow>
          (except_unbound ''e''
             (case r of
                Inl raised \<Rightarrow> Inl raised
              | Inr dest \<Rightarrow>
                  (case tuple_getattr dest ''name'' of
                     Inl raised \<Rightarrow> Inl raised
                   | Inr n \<Rightarrow>
                       (case tuple_getattr dest ''close'' of
                          Inl raised \<Rightarrow> Inl raised
                        | Inr _ \<Rightarrow> Inr (self\<lparr>dest_path := Some n\<rparr>)))),
           w'))"

definition FolderDownloadOperator_download_source ::
  "'w platform \<Rightarrow> FolderDownloadOperator \<Rightarrow> (unit, 'w) io" where
  "FolderDownloadOperator_download_source P self w =
     (case hook_init P (SourceHook self) (source_conn_id self) w of
        (Inl e, w1) \<Rightarrow> (Inl e, w1)
      | (Inr _, w1) \<Rightarrow>
          (case dest_path self of
             Some d \<Rightarrow>
               hook_download_folder P (SourceHook self) (source_conn_id self)
                 (source_path self) d True w1
           | None \<Rightarrow>
               (if SourceHook self = CommonS3Hook then (Inl (NotImplementedError []), w1)
                else (Inl TypeError, w1))))"

definition FolderDownloadOperator_execute ::
  "'w platform \<Rightarrow> FolderDownloadOperator \<Rightarrow> (string option, 'w) io" where
  "FolderDownloadOperator_execute P self w =
     (case (if falsy (dest_path self) then FolderDownloadOperator_create_temp_dest P self w
            else (Inr self, w)) of
        (Inl e, w1) \<Rightarrow> (Inl e, w1)
      | (Inr self1, w1) \<Rightarrow>
          (case FolderDownloadOperator_download_source P self1 w1 of
             (Inl e, w2) \<Rightarrow> (Inl e, w2)
           | (Inr _, w2) \<Rightarrow> (Inr (dest_path self1), w2)))"

subsection \<open>Availability sensors\<close>

definition FileAvailabilitySensor_check_source ::
  "'w platform \<Rightarrow> FileAvailabilitySensor \<Rightarrow> (bool, 'w) io" where
  "FileAvailabilitySensor_check_source P self w =
     (case hook_init P (SourceHook self) (source_conn_id self) w of
        (Inl e, w1) \<Rightarrow> (Inl e, w1)
      | (Inr _, w1) \<Rightarrow>
          (case hook_file_exists P (SourceHook self) (source_conn_id self) (source_path self) w1 of
             Inl e \<Rightarrow> (Inl e, w1)
           | Inr found \<Rightarrow> (if found then (Inr True, w1) else (Inr False, w1))))"

definition FileAvailabilitySensor_poke ::
  "'w platform \<Rightarrow> FileAvailabilitySensor \<Rightarrow> (bool, 'w) io" where
  "FileAvailabilitySensor_poke P self w = FileAvailabilitySensor_check_source P self w"

definition FolderAvailabilitySensor_check_source ::
  "'w platform \<Rightarrow> FolderAvailabilitySensor \<Rightarrow> (bool, 'w) io" where
  "FolderAvailabilitySensor_check_source P self w =
     (case hook_init P (SourceHook self) (source_conn_id self) w of
        (Inl e, w1) \<Rightarrow> (Inl e, w1)
      | (Inr _, w1) \<Rightarrow>
          (case hook_folder_exists P (SourceHook self) (source_conn_id self) (source_path self) w1 of
             Inl e \<Rightarrow> (Inl e, w1)
           | Inr found \<Rightarrow> (if found then (Inr True, w1) else (Inr False, w1))))"

text \<open>The inherited \<^verbatim>\<open>poke\<close> calls the overriding \<^verbatim>\<open>check_source\<close>.\<close>

definition FolderAvailabilitySensor_poke ::
  "'w platform \<Rightarrow> FolderAvailabilitySensor \<Rightarrow> (bool, 'w) io" where
  "FolderAvailabilitySensor_poke P self w = FolderAvailabilitySensor_check_source P self w"

subsection \<open>Cleanup operator\<close>

text \<open>
  The loop \<^verbatim>\<open>for path in paths_iter: conn.delete(path)\<close>. The list that is threaded
  through holds the paths on which \<^verbatim>\<open>conn.delete\<close> has been called so far, in the
  order of the calls; an exception leaves the loop at once.
\<close>

fun delete_each ::
  "(string \<Rightarrow> (unit, 'w) io) \<Rightarrow> string list \<Rightarrow> string list \<Rightarrow> 'w
     \<Rightarrow> (error + unit) \<times> string list \<times> 'w" where
  "delete_each del [] attempted w = (Inr (), attempted, w)"
| "delete_each del (path # rest) attempted w =
     (case del path w of
        (Inl e, w') \<Rightarrow> (Inl e, attempted @ [path], w')
      | (Inr _, w') \<Rightarrow> delete_each del rest (attempted @ [path]) w')"

text \<open>
  \<^verbatim>\<open>CleanupOperator.execute\<close>: an object that cannot be iterated reaches the handler,
  which reads the unbound name \<^verbatim>\<open>paths\<close>; a string (which the constructor never
  leaves in the field) would be iterated character by character.
\<close>

definition CleanupOperator_execute ::
  "'w platform \<Rightarrow> CleanupOperator \<Rightarrow> 'w \<Rightarrow> (error + unit) \<times> string list \<times> 'w" where
  "CleanupOperator_execute P self w =
     (case hook_init P (ConnHook self) (conn_id self) w of
        (Inl e, w1) \<Rightarrow> (Inl e, [], w1)
      | (Inr _, w1) \<Rightarrow>
          (case paths self of
             NonIterable \<Rightarrow> (Inl (NameError ''paths''), [], w1)
           | Seq ps \<Rightarrow> delete_each (hook_delete P (ConnHook self)) ps [] w1
           | Str s \<Rightarrow> delete_each (hook_delete P (ConnHook self)) (map (\<lambda>c. [c]) s) [] w1))"

subsection \<open>Transform operator\<close>

text \<open>
  A temporary file object: its name and what it holds. A byte stream opened for
  writing is the list of the chunks written to it, one per call of \<^verbatim>\<open>write\<close>.
\<close>

record temporary_file =
  name :: string
  content :: bytes

record out_stream =
  written :: "bytes list"

definition stream_write :: "out_stream \<Rightarrow> bytes \<Rightarrow> out_stream" where
  "stream_write dest chunk = dest\<lparr>written := written dest @ [chunk]\<rparr>"

text \<open>Iterating a binary file yields its lines, each with the newline that ends it.\<close>

fun readlines :: "bytes \<Rightarrow> bytes list" where
  "readlines [] = []"
| "readlines (b # bs) =
     (if b = 10 then [b] # readlines bs
      else (case readlines bs of
              [] \<Rightarrow> [[b]]
            | line # lines \<Rightarrow> (b # line) # lines))"

text \<open>
  \<^verbatim>\<open>"Transform script failed " + self.sp.stderr\<close>: the right operand is what
  \<^verbatim>\<open>subprocess.run\<close> captured. Python 3 concatenates a string with a string only.
\<close>

datatype py_value = PyStr string | PyBytes bytes | PyNone

fun str_add :: "string \<Rightarrow> py_value \<Rightarrow> error + string" where
  "str_add s (PyStr t) = Inr (s @ t)"
| "str_add s (PyBytes b) = Inl TypeError"
| "str_add s PyNone = Inl TypeError"

definition FileTransformOperator_transform ::
  "'w platform \<Rightarrow> FileTransformOperator \<Rightarrow> temporary_file \<Rightarrow> temporary_file \<Rightarrow> 'w
     \<Rightarrow> (error + unit) \<times> temporary_file \<times> 'w" where
  "FileTransformOperator_transform P self f_source f_dest w =
     (let script_args =
            [transform_script self]
            @ (if \<not> use_stdin self then [name f_source] else [])
            @ (if \<not> use_stdout self then [name f_dest] else [])
      in case subprocess_run P script_args
                (if use_stdin self then Some (content f_source) else None)
                [(name f_source, content f_source), (name f_dest, content f_dest)] w of
           (Inl e, w') \<Rightarrow> (Inl e, f_dest, w')
         | (Inr sp, w') \<Rightarrow>
             (let f_dest' =
                    f_dest\<lparr>content :=
                      (if use_stdout self then content f_dest @ stdout_data sp
                       else (case map_of (files_written sp) (name f_dest) of
                               Some data \<Rightarrow> data
                             | None \<Rightarrow> content f_dest))\<rparr>
              in if returncode sp > 0 then
                   (case str_add ''Transform script failed '' (PyBytes (stderr sp)) of
                      Inl e \<Rightarrow> (Inl e, f_dest', w')
                    | Inr msg \<Rightarrow> (Inl (AirflowException msg), f_dest', w'))
                 else (Inr (), f_dest', w')))"

text \<open>
  \<^verbatim>\<open>FileTransformOperator.transfer(source, dest)\<close>: \<open>source\<close> is what
  \<^verbatim>\<open>source.read()\<close> returns, \<open>dest\<close> the stream the chunks go to. Both temporary
  files are closed (and so removed) when their \<^verbatim>\<open>with\<close> blocks are left, on every
  path.
\<close>

definition FileTransformOperator_transfer ::
  "'w platform \<Rightarrow> FileTransformOperator \<Rightarrow> bytes \<Rightarrow> out_stream \<Rightarrow> 'w
     \<Rightarrow> (error + unit) \<times> out_stream \<times> 'w" where
  "FileTransformOperator_transfer P self source dest w =
     (case NamedTemporaryFile P w of
        (Inl e, w1) \<Rightarrow> (Inl e, dest, w1)
      | (Inr source_name, w1) \<Rightarrow>
          (let f_source = \<lparr>name = source_name, content = source\<rparr> in
           case NamedTemporaryFile P w1 of
             (Inl e, w2) \<Rightarrow> (Inl e, dest, close_temporary P source_name w2)
           | (Inr dest_name, w2) \<Rightarrow>
               (let f_dest = \<lparr>name = dest_name, content = []\<rparr> in
                case FileTransformOperator_transform P self f_source f_dest w2 of
                  (Inl e, f_dest', w3) \<Rightarrow>
                    (Inl e, dest,
                     close_temporary P source_name (close_temporary P dest_name w3))
                | (Inr _, f_dest', w3) \<Rightarrow>
                    (Inr (), foldl stream_write dest (readlines (content f_dest')),
                     close_temporary P source_name (close_temporary P dest_name w3)))))"

subsection \<open>Executing the transform operator\<close>

text \<open>
  \<^verbatim>\<open>hook.open(path, mode)\<close> returns a context manager made by
  \<^verbatim>\<open>@contextmanager\<close>, which holds whatever the decorated function returned:
  \<^item> for the FTP and SFTP hooks, what \<^verbatim>\<open>CommonFTPHookMixin.open\<close> returned (its body
    has run by then);
  \<^item> for the local hook, the file object that the builtin \<^verbatim>\<open>open\<close> returned:
    \<^verbatim>\<open>CommonFSHook.open\<close> has no \<^verbatim>\<open>yield\<close> either;
  \<^item> for the S3 hook, the generator of \<^verbatim>\<open>CommonS3Hook.open\<close>, whose body has not
    started.
\<close>

datatype manager =
    FTPManager "stream_generator option"
  | FileManager file_object
  | S3Manager string

definition hook_open ::
  "'w platform \<Rightarrow> hook_class \<Rightarrow> string \<Rightarrow> string \<Rightarrow> (manager, 'w) io" where
  "hook_open P cls path mode w =
     (case cls of
        CommonFSHook \<Rightarrow>
          (case builtin_open P path mode w of
             (Inl e, w') \<Rightarrow> (Inl e, w')
           | (Inr f, w') \<Rightarrow> (Inr (FileManager f), w'))
      | CommonS3Hook \<Rightarrow> (Inr (S3Manager path), w)
      | _ \<Rightarrow>
          (case CommonFTPHookMixin_open path mode of
             Inl e \<Rightarrow> (Inl e, w)
           | Inr gen \<Rightarrow> (Inr (FTPManager gen), w)))"

text \<open>
  What a \<^verbatim>\<open>with\<close> statement binds: a buffer (given by what its \<^verbatim>\<open>read()\<close>
  returns), or one line of a file, which is a plain byte string and has neither
  \<^verbatim>\<open>read\<close> nor \<^verbatim>\<open>write\<close>.
\<close>

datatype stream_object = BytesIO bytes | FileLine bytes

text \<open>
  Entering the manager calls \<^verbatim>\<open>next\<close> on what it holds. On a file object that is
  its first line; a file that cannot be read raises, and so does one with no line (the
  manager then reports that the generator did not yield). The body of
  \<^verbatim>\<open>CommonS3Hook.open\<close> starts with \<^verbatim>\<open>self.get_key(path)\<close>, and \<^verbatim>\<open>path\<close> is
  bound nowhere.
\<close>

definition manager_enter ::
  "(string \<Rightarrow> file_arg \<Rightarrow> (unit, 'w) io) \<Rightarrow> manager \<Rightarrow> (stream_object, 'w) io" where
  "manager_enter store_file m w =
     (case m of
        FTPManager gen \<Rightarrow>
          (case stream_enter store_file gen w of
             (Inl e, w') \<Rightarrow> (Inl e, w')
           | (Inr buffer, w') \<Rightarrow> (Inr (BytesIO buffer), w'))
      | FileManager f \<Rightarrow>
          (if \<not> readable f then (Inl UnsupportedOperation, w)
           else (case pending f of
                   [] \<Rightarrow> (Inl RuntimeError, w)
                 | line # rest \<Rightarrow> (Inr (FileLine line), w)))
      | S3Manager path \<Rightarrow> (Inl (NameError ''path''), w))"

text \<open>
  Leaving the block. After a body that returned, the manager calls \<^verbatim>\<open>next\<close> again
  and expects the end: the generator of \<^verbatim>\<open>_open_for_write\<close> ends there (it does
  nothing after its \<^verbatim>\<open>yield\<close>, so what was written to the buffer goes nowhere); a
  file object with a further line yields it, which the manager reports as an error.
  After a body that raised, the manager calls \<^verbatim>\<open>throw\<close>: a generator lets the
  exception pass, a file object has no such method.
\<close>

definition manager_exit :: "manager \<Rightarrow> error + unit \<Rightarrow> error + unit" where
  "manager_exit m outcome =
     (case m of
        FileManager f \<Rightarrow>
          (case outcome of
             Inl e \<Rightarrow> Inl (AttributeError ''throw'')
           | Inr _ \<Rightarrow> (if length (pending f) > 1 then Inl RuntimeError else Inr ()))
      | _ \<Rightarrow> outcome)"

text \<open>
  \<^verbatim>\<open>self.transfer(source, dest)\<close> on the objects the two \<^verbatim>\<open>with\<close> statements
  bound. On a line of a file, \<^verbatim>\<open>source.read()\<close> raises after the first temporary
  file has been made. A destination that is a line raises at the first
  \<^verbatim>\<open>dest.write\<close>, if there is one.
\<close>

definition FileTransformOperator_transfer_objects ::
  "'w platform \<Rightarrow> FileTransformOperator \<Rightarrow> stream_object \<Rightarrow> stream_object \<Rightarrow> 'w
     \<Rightarrow> (error + unit) \<times> 'w" where
  "FileTransformOperator_transfer_objects P self source dest w =
     (case source of
        FileLine line \<Rightarrow>
          (case NamedTemporaryFile P w of
             (Inl e, w1) \<Rightarrow> (Inl e, w1)
           | (Inr source_name, w1) \<Rightarrow>
               (Inl (AttributeError ''read''), close_temporary P source_name w1))
      | BytesIO data \<Rightarrow>
          (case FileTransformOperator_transfer P self data \<lparr>written = []\<rparr> w of
             (Inl e, chunks, w') \<Rightarrow> (Inl e, w')
           | (Inr _, chunks, w') \<Rightarrow>
               (case dest of
                  BytesIO buffer \<Rightarrow> (Inr (), w')
                | FileLine line \<Rightarrow>
                    (if written chunks = [] then (Inr (), w')
                     else (Inl (AttributeError ''write''), w')))))"

definition FileTransformOperator_open_source ::
  "'w platform \<Rightarrow> FileTransformOperator \<Rightarrow> (manager, 'w) io" where
  "FileTransformOperator_open_source P self w =
     (case hook_init P (SourceHook self) (source_conn_id self) w of
        (Inl e, w1) \<Rightarrow> (Inl e, w1)
      | (Inr _, w1) \<Rightarrow> hook_open P (SourceHook self) (source_path self) ''rb'' w1)"

definition FileTransformOperator_open_dest ::
  "'w platform \<Rightarrow> FileTransformOperator \<Rightarrow> (manager, 'w) io" where
  "FileTransformOperator_open_dest P self w =
     (case hook_init P (DestHook self) (dest_conn_id self) w of
        (Inl e, w1) \<Rightarrow> (Inl e, w1)
      | (Inr _, w1) \<Rightarrow>
          hook_open P (DestHook self) (FileTransferOperator.dest_path self) ''w'' w1)"

text \<open>
  \<^verbatim>\<open>execute\<close>, inherited from \<^verbatim>\<open>FileTransferOperator\<close>, is two nested
  \<^verbatim>\<open>with\<close> statements. The inner one opens the destination, runs the transfer in
  its block and leaves the block through the destination's manager.
\<close>

definition FileTransformOperator_execute_inner ::
  "'w platform \<Rightarrow> FileTransformOperator \<Rightarrow> stream_object \<Rightarrow> (unit, 'w) io" where
  "FileTransformOperator_execute_inner P self source w =
     (case FileTransformOperator_open_dest P self w of
        (Inl e, w1) \<Rightarrow> (Inl e, w1)
      | (Inr dest_manager, w1) \<Rightarrow>
          (case manager_enter
                  (FTPHook_store_file P (DestHook self) (dest_conn_id self))
                  dest_manager w1 of
             (Inl e, w2) \<Rightarrow> (Inl e, w2)
           | (Inr dest, w2) \<Rightarrow>
               (case FileTransformOperator_transfer_objects P self source dest w2 of
                  (outcome, w3) \<Rightarrow> (manager_exit dest_manager outcome, w3))))"

text \<open>
  The outer one opens the source, runs the inner statement in its block and leaves the
  block through the source's manager, also when the inner statement raised.
\<close>

definition FileTransformOperator_execute ::
  "'w platform \<Rightarrow> FileTransformOperator \<Rightarrow> (unit, 'w) io" where
  "FileTransformOperator_execute P self w =
     (case FileTransformOperator_open_source P self w of
        (Inl e, w1) \<Rightarrow> (Inl e, w1)
      | (Inr source_manager, w1) \<Rightarrow>
          (case manager_enter
                  (FTPHook_store_file P (SourceHook self) (source_conn_id self))
                  source_manager w1 of
             (Inl e, w2) \<Rightarrow> (Inl e, w2)
           | (Inr source, w2) \<Rightarrow>
               (case FileTransformOperator_execute_inner P self source w2 of
                  (outcome, w3) \<Rightarrow> (manager_exit source_manager outcome, w3))))"

section \<open>An in-memory platform\<close>

text \<open>
  A small platform on which the theorems below are instantiated: local files and
  directories by name, files on an FTP server, one SFTP server, temporary files named
  by a counter, and two commands, \<^verbatim>\<open>cat\<close> (copies its input, status 0) and any other
  (writes \<^verbatim>\<open>boom\<close> to its standard error, status 1).
\<close>

record memory =
  mem_files :: "(string \<times> bytes) list"
  mem_dirs :: "string list"
  mem_ftp :: "(string \<times> bytes) list"
  mem_temps :: nat

definition mem_exists :: "string \<Rightarrow> memory \<Rightarrow> bool" where
  "mem_exists p w = (map_of (mem_files w) p \<noteq> None \<or> p \<in> set (mem_dirs w))"

definition mem_put :: "string \<Rightarrow> bytes \<Rightarrow> memory \<Rightarrow> memory" where
  "mem_put p data w = w\<lparr>mem_files := (p, data) # filter (\<lambda>f. fst f \<noteq> p) (mem_files w)\<rparr>"

definition mem_remove :: "string \<Rightarrow> memory \<Rightarrow> memory" where
  "mem_remove p w = w\<lparr>mem_files := filter (\<lambda>f. fst f \<noteq> p) (mem_files w)\<rparr>"

definition mem_unlink :: "string \<Rightarrow> (unit, memory) io" where
  "mem_unlink p w =
     (if map_of (mem_files w) p \<noteq> None then (Inr (), mem_remove p w)
      else (Inl (OSError ENOENT p), w))"

definition mem_rmtree :: "string \<Rightarrow> (unit, memory) io" where
  "mem_rmtree p w =
     (if p \<in> set (mem_dirs w)
      then (Inr (),
            w\<lparr>mem_dirs := filter (\<lambda>d. d \<noteq> p \<and> \<not> startswith d (p @ ''/'')) (mem_dirs w),
              mem_files := filter (\<lambda>f. \<not> startswith (fst f) (p @ ''/'')) (mem_files w)\<rparr>)
      else (Inl (OSError ENOENT p), w))"

definition mem_makedirs :: "string \<Rightarrow> (unit, memory) io" where
  "mem_makedirs p w =
     (if p = [] then (Inl (OSError ENOENT p), w)
      else if mem_exists p w then (Inl (OSError EEXIST p), w)
      else (Inr (), w\<lparr>mem_dirs := p # mem_dirs w\<rparr>))"

definition mem_copyfile :: "string \<Rightarrow> string \<Rightarrow> (unit, memory) io" where
  "mem_copyfile src dst w =
     (case map_of (mem_files w) src of
        None \<Rightarrow> (Inl (OSError ENOENT src), w)
      | Some data \<Rightarrow> (Inr (), mem_put dst data w))"

definition mem_copytree :: "string \<Rightarrow> string \<Rightarrow> (unit, memory) io" where
  "mem_copytree src dst w =
     (if src \<in> set (mem_dirs w) \<and> \<not> mem_exists dst w
      then (Inr (),
            w\<lparr>mem_dirs := dst # mem_dirs w,
              mem_files :=
                map (\<lambda>f. (dst @ drop (length src) (fst f), snd f))
                  (filter (\<lambda>f. startswith (fst f) (src @ ''/'')) (mem_files w))
                @ mem_files w\<rparr>)
      else (Inl (OSError ENOENT src), w))"

definition mem_temp_name :: "memory \<Rightarrow> string" where
  "mem_temp_name w = ''/tmp/tmp'' @ replicate (mem_temps w) (CHR ''x'')"

definition mem_new_temp :: "memory \<Rightarrow> memory" where
  "mem_new_temp w = (mem_put (mem_temp_name w) [] w)\<lparr>mem_temps := Suc (mem_temps w)\<rparr>"

definition mem_mkstemp :: "(int \<times> string, memory) io" where
  "mem_mkstemp w = (Inr (3 + int (mem_temps w), mem_temp_name w), mem_new_temp w)"

definition mem_NamedTemporaryFile :: "(string, memory) io" where
  "mem_NamedTemporaryFile w = (Inr (mem_temp_name w), mem_new_temp w)"

definition mem_open_wb :: "string \<Rightarrow> (unit, memory) io" where
  "mem_open_wb p w =
     (if p \<in> set (mem_dirs w) then (Inl (OSError 21 p), w) else (Inr (), mem_put p [] w))"

definition mem_open :: "string \<Rightarrow> string \<Rightarrow> (file_object, memory) io" where
  "mem_open p mode w =
     (if startswith mode ''r'' then
        (case map_of (mem_files w) p of
           None \<Rightarrow> (Inl (OSError ENOENT p), w)
         | Some data \<Rightarrow> (Inr \<lparr>readable = True, pending = readlines data\<rparr>, w))
      else if p \<in> set (mem_dirs w) then (Inl (OSError 21 p), w)
      else (Inr \<lparr>readable = False, pending = []\<rparr>, mem_put p [] w))"

definition mem_write_local :: "string \<Rightarrow> bytes \<Rightarrow> (unit, memory) io" where
  "mem_write_local p data w =
     (case map_of (mem_files w) p of
        None \<Rightarrow> (Inl (OSError ENOENT p), w)
      | Some old \<Rightarrow> (Inr (), mem_put p (old @ data) w))"

definition mem_ftp_retrieve ::
  "hook_class \<Rightarrow> string option \<Rightarrow> string \<Rightarrow> file_arg \<Rightarrow> (file_arg, memory) io" where
  "mem_ftp_retrieve cls cid remote target w =
     (case map_of (mem_ftp w) remote of
        None \<Rightarrow> (Inl (OSError ENOENT remote), w)
      | Some data \<Rightarrow>
          (case target of
             Path p \<Rightarrow> (Inr (Path p), mem_put p data w)
           | Buffer b \<Rightarrow> (Inr (Buffer (b @ data)), w)))"

definition mem_ftp_store ::
  "hook_class \<Rightarrow> string option \<Rightarrow> string \<Rightarrow> file_arg \<Rightarrow> (unit, memory) io" where
  "mem_ftp_store cls cid remote src w =
     (case src of
        Buffer b \<Rightarrow>
          (Inr (), w\<lparr>mem_ftp := (remote, b) # filter (\<lambda>f. fst f \<noteq> remote) (mem_ftp w)\<rparr>)
      | Path p \<Rightarrow>
          (case map_of (mem_files w) p of
             None \<Rightarrow> (Inl (OSError ENOENT p), w)
           | Some data \<Rightarrow>
               (Inr (), w\<lparr>mem_ftp := (remote, data) # filter (\<lambda>f. fst f \<noteq> remote) (mem_ftp w)\<rparr>)))"

definition boom :: bytes where
  "boom = [98, 111, 111, 109]"

definition mem_run ::
  "string list \<Rightarrow> bytes option \<Rightarrow> (string \<times> bytes) list \<Rightarrow> (process_result, memory) io" where
  "mem_run argv input files w =
     (if argv = [''cat'']
      then (Inr \<lparr>returncode = 0, stderr = [],
                 stdout_data = (case input of None \<Rightarrow> [] | Some data \<Rightarrow> data),
                 files_written = []\<rparr>, w)
      else (Inr \<lparr>returncode = 1, stderr = boom, stdout_data = [], files_written = []\<rparr>, w))"

definition memory_platform :: "sftp_connection \<Rightarrow> memory platform" where
  "memory_platform server =
     \<lparr>os_path_exists = mem_exists,
      os_path_isdir = (\<lambda>p w. p \<in> set (mem_dirs w)),
      os_makedirs = mem_makedirs,
      copyfile = mem_copyfile,
      copytree = mem_copytree,
      rmtree = mem_rmtree,
      unlink = mem_unlink,
      mkstemp = mem_mkstemp,
      open_wb = mem_open_wb,
      builtin_open = mem_open,
      write_local = mem_write_local,
      S3Hook_init = (\<lambda>cid w. (Inr (), w)),
      FTPHook_retrieve_file = mem_ftp_retrieve,
      FTPHook_store_file = mem_ftp_store,
      pysftp_Connection = (\<lambda>cid w. Inr server),
      pysftp_get_d = (\<lambda>conn remote local w. (Inl (OSError ENOENT remote), w)),
      NamedTemporaryFile = mem_NamedTemporaryFile,
      close_temporary = mem_remove,
      subprocess_run = mem_run\<rparr>"

text \<open>
  An SFTP server whose root holds the directories \<^verbatim>\<open>data\<close> and \<^verbatim>\<open>home\<close>;
  \<^verbatim>\<open>/data\<close> holds two regular files.
\<close>

definition reports_server :: sftp_connection where
  "reports_server =
     \<lparr>cwd = ''/home'',
      listing = map_of
        [(''/'',
            [\<lparr>filename = ''data'', st_mode = 16877\<rparr>,
             \<lparr>filename = ''home'', st_mode = 16877\<rparr>]),
         (''/home'', []),
         (''/data'',
            [\<lparr>filename = ''report_2024.csv'', st_mode = 33188\<rparr>,
             \<lparr>filename = ''report_2023.csv'', st_mode = 33188\<rparr>])],
      remote_files = map_of [(''/data/report_2024.csv'', [49, 10]), (''/data/report_2023.csv'', [])],
      isfile = (\<lambda>p. False),
      isdir = (\<lambda>p. False)\<rparr>"

definition staging :: memory where
  "staging =
     \<lparr>mem_files = [(''a'', [1]), (''c'', [3]), (''/staging/in.csv'', [120, 10])],
      mem_dirs = [''/staging''],
      mem_ftp = [],
      mem_temps = 0\<rparr>"

section \<open>Notions of the specification\<close>

text \<open>
  Python's \<^verbatim>\<open>open\<close>, to which the docstring of \<^verbatim>\<open>CommonFileHook.open\<close> refers
  for the meaning of a mode: a plus sign anywhere in the mode opens the file for
  updating, that is for reading and writing at once.
\<close>

definition opens_for_update :: "string \<Rightarrow> bool" where
  "opens_for_update mode = (CHR ''+'' \<in> set mode)"

text \<open>
  The same platform, but with other native \<^verbatim>\<open>isfile\<close> and \<^verbatim>\<open>isdir\<close> tests on
  every SFTP connection it opens.
\<close>

definition replace_native_tests ::
  "(string \<Rightarrow> bool) \<Rightarrow> (string \<Rightarrow> bool) \<Rightarrow> 'w platform \<Rightarrow> 'w platform" where
  "replace_native_tests f g P =
     P\<lparr>pysftp_Connection :=
         (\<lambda>cid w. case pysftp_Connection P cid w of
                     Inl e \<Rightarrow> Inl e
                   | Inr conn \<Rightarrow> Inr (conn\<lparr>isfile := f, isdir := g\<rparr>))\<rparr>"

text \<open>A download operator and a sensor used as examples.\<close>

definition download_in_csv :: DownloadOperator where
  "download_in_csv =
     \<lparr>source_type = ''local'', source_conn_id = None, source_path = ''/staging/in.csv'',
      SourceHook = CommonFSHook, dest_path = None\<rparr>"

definition sftp_sensor :: "string \<Rightarrow> source_fields" where
  "sftp_sensor path =
     \<lparr>source_type = ''sftp'', source_conn_id = Some ''phl-ftp-etl'', source_path = path,
      SourceHook = CommonFTPSHook\<rparr>"

definition cleanup_abc :: CleanupOperator where
  "cleanup_abc =
     \<lparr>conn_type = ''local'', conn_id = None, paths = Seq [''a'', ''b'', ''c''],
      ConnHook = CommonFSHook\<rparr>"

definition transform_with :: "string \<Rightarrow> FileTransformOperator" where
  "transform_with script =
     \<lparr>source_type = ''sftp'', source_conn_id = None, source_path = ''/data/report_2024.csv'',
      SourceHook = CommonFTPSHook,
      dest_type = ''ftp'', dest_conn_id = None,
      FileTransferOperator.dest_path = ''/out/report.csv'', DestHook = CommonFTPHook,
      transform_script = script, use_stdin = True, use_stdout = True\<rparr>"

definition transform_local_to_ftp :: "string \<Rightarrow> FileTransformOperator" where
  "transform_local_to_ftp script =
     \<lparr>source_type = ''local'', source_conn_id = None, source_path = ''/staging/in.csv'',
      SourceHook = CommonFSHook,
      dest_type = ''ftp'', dest_conn_id = None,
      FileTransferOperator.dest_path = ''/out/report.csv'', DestHook = CommonFTPHook,
      transform_script = script, use_stdin = True, use_stdout = True\<rparr>"

definition staging_with_report :: memory where
  "staging_with_report = staging\<lparr>mem_ftp := [(''/out/report.csv'', [1, 2, 3])]\<rparr>"

section \<open>The registry\<close>

lemma by_type_cases:
  "by_type t =
     (if t = ''ftp'' then Inr CommonFTPHook
      else if t = ''sftp'' then Inr CommonFTPSHook
      else if t = ''s3'' then Inr CommonS3Hook
      else if t = ''local'' then Inr CommonFSHook
      else Inl (KeyError t))"
  by (simp add: by_type_def hook_registry_def)

text \<open>
  C10. \<^verbatim>\<open>CommonFileHook.by_type\<close> maps \<^verbatim>\<open>'ftp'\<close>, \<^verbatim>\<open>'sftp'\<close>, \<^verbatim>\<open>'s3'\<close> and
  \<^verbatim>\<open>'local'\<close> to their hook classes and raises \<^verbatim>\<open>KeyError\<close> on every other tag.
  Every operator looks its hook class up in its constructor, so with an unknown tag the
  constructor of each of the seven operators raises that \<^verbatim>\<open>KeyError\<close>: no operator
  object comes to exist that could be executed. (A transfer or transform operator looks
  up the source tag first, then the destination tag.)
\<close>

theorem registry_total_on_four_tags:
  "(by_type t = Inr CommonFTPHook \<longleftrightarrow> t = ''ftp'') \<and>
   (by_type t = Inr CommonFTPSHook \<longleftrightarrow> t = ''sftp'') \<and>
   (by_type t = Inr CommonS3Hook \<longleftrightarrow> t = ''s3'') \<and>
   (by_type t = Inr CommonFSHook \<longleftrightarrow> t = ''local'') \<and>
   (t \<notin> {''ftp'', ''sftp'', ''s3'', ''local''} \<longrightarrow>
      by_type t = Inl (KeyError t) \<and>
      FileDownloadOperator_init t p c d = Inl (KeyError t) \<and>
      FolderDownloadOperator_init t p c d = Inl (KeyError t) \<and>
      FileTransferOperator_init t t' p p' c c' = Inl (KeyError t) \<and>
      FileTransferOperator_init t' t p p' c c' =
        Inl (KeyError (if t' \<in> {''ftp'', ''sftp'', ''s3'', ''local''} then t else t')) \<and>
      FileTransformOperator_init script i out t t' p p' c c' = Inl (KeyError t) \<and>
      FileTransformOperator_init script i out t' t p p' c c' =
        Inl (KeyError (if t' \<in> {''ftp'', ''sftp'', ''s3'', ''local''} then t else t')) \<and>
      FileAvailabilitySensor_init t p c d = Inl (KeyError t) \<and>
      FolderAvailabilitySensor_init t p c d = Inl (KeyError t) \<and>
      CleanupOperator_init ps c t = Inl (KeyError t))"
  by (simp add: by_type_cases FileDownloadOperator_init_def FolderDownloadOperator_init_def
      FileTransferOperator_init_def FileTransformOperator_init_def
      FileAvailabilitySensor_init_def FolderAvailabilitySensor_init_def
      CleanupOperator_init_def Let_def)

theorem registry_total_on_four_tags_witness:
  "''gcs'' \<notin> {''ftp'', ''sftp'', ''s3'', ''local''} \<and>
   by_type ''gcs'' = Inl (KeyError ''gcs'') \<and>
   FileDownloadOperator_init ''gcs'' ''/in.csv'' None None = Inl (KeyError ''gcs'') \<and>
   FileTransferOperator_init ''local'' ''gcs'' ''/in.csv'' ''/out.csv'' None None
     = Inl (KeyError ''gcs'') \<and>
   FileAvailabilitySensor_init ''gcs'' ''/in.csv'' None None = Inl (KeyError ''gcs'') \<and>
   CleanupOperator_init (Str ''/staging'') None ''gcs'' = Inl (KeyError ''gcs'')"
proof -
  have unknown: "''gcs'' \<notin> {''ftp'', ''sftp'', ''s3'', ''local''}"
    by simp
  from registry_total_on_four_tags
         [of "''gcs''" "''/in.csv''" None None "''local''" "''/out.csv''" None
             "[]" True True "Str ''/staging''"]
  show ?thesis
    using unknown by simp
qed

section \<open>Opening a stream over FTP\<close>

lemma open_rejects_read_write_and_append:
  "startswith mode ''r+'' \<or> startswith mode ''a'' \<Longrightarrow>
   \<exists>msg. CommonFTPHookMixin_open p mode = Inl (NotImplementedError msg)"
  by (cases mode) (auto simp: CommonFTPHookMixin_open_def parse_mode_def startswith_def Let_def)

text \<open>
  C6. The claim: over FTP and SFTP, \<^verbatim>\<open>open(path, mode)\<close> fails at open time whenever
  the mode asks for reading and writing at once, or for appending. The code at the mode
  \<^verbatim>\<open>w+\<close>, which opens for updating: \<^verbatim>\<open>parse_mode\<close> sees no leading \<^verbatim>\<open>r\<close>, so
  the call takes the write branch and returns the generator of \<^verbatim>\<open>_open_for_write\<close>;
  entering the \<^verbatim>\<open>with\<close> statement stores the empty buffer and, when that store
  succeeds, yields the stream. (The modes that begin with \<^verbatim>\<open>r+\<close> or \<^verbatim>\<open>a\<close> are
  rejected, see \<open>open_rejects_read_write_and_append\<close>.)
\<close>

theorem open_w_plus_yields_stream:
  "opens_for_update ''w+'' \<and>
   CommonFTPHookMixin_open p ''w+'' =
     Inr (Some (open_for_write p
       \<lparr>is_binary = False, can_read = False, can_write = True, replace = True\<rparr>)) \<and>
   CommonFTPHookMixin_with_open store p ''w+'' w =
     (case store p (Buffer []) w of
        (Inl e, w') \<Rightarrow> (Inl e, w')
      | (Inr u, w') \<Rightarrow> (Inr [], w'))"
  by (simp add: opens_for_update_def CommonFTPHookMixin_with_open_def
      CommonFTPHookMixin_open_def parse_mode_def startswith_def stream_enter_def Let_def)

section \<open>Downloads\<close>

text \<open>
  C3. The claim: a download operator executed with no destination path creates a fresh
  temporary path of the matching kind, downloads to it and returns it. The code, in
  both variants: \<^verbatim>\<open>mkstemp()\<close> returns a pair, reading \<^verbatim>\<open>dest.name\<close> from it
  raises, the clause \<^verbatim>\<open>except e\<close> then raises \<^verbatim>\<open>NameError\<close>, and \<^verbatim>\<open>execute\<close>
  ends there: nothing is downloaded and no path is returned; the world is the one
  \<^verbatim>\<open>mkstemp\<close> left (a temporary file, also in the folder variant).
\<close>

theorem download_without_dest_raises:
  "falsy (dest_path self) \<Longrightarrow>
   FileDownloadOperator_execute P self w = (Inl (NameError ''e''), snd (mkstemp P w)) \<and>
   FolderDownloadOperator_execute P self w = (Inl (NameError ''e''), snd (mkstemp P w))"
  by (simp add: FileDownloadOperator_execute_def FolderDownloadOperator_execute_def
      FileDownloadOperator_create_temp_dest_def FolderDownloadOperator_create_temp_dest_def
      except_unbound_def tuple_getattr_def split: prod.splits sum.splits)

theorem download_without_dest_raises_witness:
  "falsy (dest_path download_in_csv) \<and>
   FileDownloadOperator_execute (memory_platform reports_server) download_in_csv staging
     = (Inl (NameError ''e''), mem_new_temp staging) \<and>
   FolderDownloadOperator_execute (memory_platform reports_server) download_in_csv staging
     = (Inl (NameError ''e''), mem_new_temp staging)"
proof -
  have noval: "falsy (dest_path download_in_csv)"
    by (simp add: falsy_def download_in_csv_def)
  from download_without_dest_raises [OF noval, of "memory_platform reports_server" staging]
  show ?thesis
    using noval by (simp add: memory_platform_def mem_mkstemp_def)
qed

text \<open>
  C4, as the claim states it, fails on the S3 hook, which has no \<^verbatim>\<open>download\<close> of its
  own: the call raises \<^verbatim>\<open>NotImplementedError\<close>, not \<^verbatim>\<open>FileExistsError\<close>.
\<close>

theorem s3_download_existing_counterexample:
  "os_path_exists (memory_platform reports_server) ''/staging/in.csv'' staging \<and>
   hook_download (memory_platform reports_server) CommonS3Hook None
       ''bucket/in.csv'' ''/staging/in.csv'' False staging
     \<noteq> (Inl (FileExistsError ''/staging/in.csv''), staging)"
  by (simp add: hook_download_def memory_platform_def mem_exists_def staging_def)

text \<open>
  C4, amended. \<^verbatim>\<open>download(remotepath, localpath, replace=False)\<close> on a local path that
  exists: the local, FTP and SFTP hooks raise \<^verbatim>\<open>FileExistsError(localpath)\<close> before
  they do anything else, the S3 hook raises \<^verbatim>\<open>NotImplementedError\<close>; in each case
  the world, and with it the content of the local path, is as it was.
\<close>

theorem download_existing_untouched:
  "os_path_exists P localpath w \<Longrightarrow>
   hook_download P cls cid remotepath localpath False w =
     (if cls = CommonS3Hook then Inl (NotImplementedError [])
      else Inl (FileExistsError localpath), w)"
  by (cases cls) (simp_all add: hook_download_def CommonFSHook_download_def
      CommonFTPHookMixin_download_def)

theorem download_existing_untouched_witness:
  "os_path_exists (memory_platform reports_server) ''/staging/in.csv'' staging \<and>
   hook_download (memory_platform reports_server) CommonFTPSHook None
       ''/data/report_2024.csv'' ''/staging/in.csv'' False staging
     = (Inl (FileExistsError ''/staging/in.csv''), staging) \<and>
   hook_download (memory_platform reports_server) CommonFSHook None
       ''a'' ''/staging/in.csv'' False staging
     = (Inl (FileExistsError ''/staging/in.csv''), staging) \<and>
   map_of (mem_files staging) ''/staging/in.csv'' = Some [120, 10]"
proof -
  have there: "os_path_exists (memory_platform reports_server) ''/staging/in.csv'' staging"
    by (simp add: memory_platform_def mem_exists_def staging_def)
  from download_existing_untouched [OF there, of CommonFTPSHook None "''/data/report_2024.csv''"]
       download_existing_untouched [OF there, of CommonFSHook None "''a''"]
  show ?thesis
    using there by (simp add: staging_def)
qed

section \<open>Existence checks over SFTP\<close>

lemma match_basename_listing:
  "PySFTPHook_get_conn P cid w = Inr conn \<Longrightarrow>
   PySFTPHook_match_basename P cid d pat (Some mf) w =
     (case listing conn d of
        None \<Rightarrow> Inl (OSError ENOENT d)
      | Some es \<Rightarrow>
          Inr (map filename (filter (\<lambda>a. mf (st_mode a) \<and> fnmatch (filename a) pat) es)))"
  by (simp add: PySFTPHook_match_basename_def sftp_chdir_def listdir_attr_def
      split: option.splits)

lemma nonempty_filter_iff: "(filter Q xs \<noteq> []) = list_ex Q xs"
  by (induction xs) auto

lemma file_exists_listing:
  "PySFTPHook_get_conn P cid w = Inr conn \<Longrightarrow>
   PySFTPHook_file_exists P cid path w =
     (case listing conn (fst (os_path_split path)) of
        None \<Rightarrow> Inl (OSError ENOENT (fst (os_path_split path)))
      | Some es \<Rightarrow>
          Inr (list_ex (\<lambda>a. S_ISREG (st_mode a) \<and>
                 fnmatch (filename a) (snd (os_path_split path))) es))"
  by (simp add: PySFTPHook_file_exists_def match_basename_listing nonempty_filter_iff
      split: prod.splits option.splits)

lemma folder_exists_listing:
  "PySFTPHook_get_conn P cid w = Inr conn \<Longrightarrow>
   PySFTPHook_folder_exists P cid path w =
     (case listing conn (fst (os_path_split (rstrip (CHR ''/'') path))) of
        None \<Rightarrow> Inl (OSError ENOENT (fst (os_path_split (rstrip (CHR ''/'') path))))
      | Some es \<Rightarrow>
          Inr (list_ex (\<lambda>a. S_ISDIR (st_mode a) \<and>
                 fnmatch (filename a) (snd (os_path_split (rstrip (CHR ''/'') path)))) es))"
  by (simp add: PySFTPHook_folder_exists_def match_basename_listing nonempty_filter_iff
      split: prod.splits option.splits)

lemma memory_get_conn:
  "PySFTPHook_get_conn (memory_platform server) cid w = Inr server"
  by (simp add: PySFTPHook_get_conn_def memory_platform_def)

lemma split_missing: "os_path_split ''/missing/in.csv'' = (''/missing'', ''in.csv'')"
  by (simp add: os_path_split_def rstrip_def)

lemma split_data_report: "os_path_split ''/data/report_*.csv'' = (''/data'', ''report_*.csv'')"
  by (simp add: os_path_split_def rstrip_def)

lemma split_data_invoice: "os_path_split ''/data/invoice_*.csv'' = (''/data'', ''invoice_*.csv'')"
  by (simp add: os_path_split_def rstrip_def)

lemma split_data: "os_path_split ''/data'' = (''/'', ''data'')"
  by (simp add: os_path_split_def rstrip_def)

lemma split_archive: "os_path_split ''/archive'' = (''/'', ''archive'')"
  by (simp add: os_path_split_def rstrip_def)

lemma listing_missing: "listing reports_server ''/missing'' = None"
  by (simp add: reports_server_def)

lemma listing_data:
  "listing reports_server ''/data'' =
     Some [\<lparr>filename = ''report_2024.csv'', st_mode = 33188\<rparr>,
           \<lparr>filename = ''report_2023.csv'', st_mode = 33188\<rparr>]"
  by (simp add: reports_server_def)

lemma listing_root:
  "listing reports_server ''/'' =
     Some [\<lparr>filename = ''data'', st_mode = 16877\<rparr>,
           \<lparr>filename = ''home'', st_mode = 16877\<rparr>]"
  by (simp add: reports_server_def)

lemma fnmatch_report_2024: "fnmatch ''report_2024.csv'' ''report_*.csv''"
  by (simp add: fnmatch_def)

lemma fnmatch_report_2023: "fnmatch ''report_2023.csv'' ''report_*.csv''"
  by (simp add: fnmatch_def)

lemma fnmatch_invoice_2024: "\<not> fnmatch ''report_2024.csv'' ''invoice_*.csv''"
  by (simp add: fnmatch_def)

lemma fnmatch_invoice_2023: "\<not> fnmatch ''report_2023.csv'' ''invoice_*.csv''"
  by (simp add: fnmatch_def)

lemma fnmatch_folders:
  "fnmatch ''data'' ''data''" "\<not> fnmatch ''home'' ''data''"
  "\<not> fnmatch ''data'' ''archive''" "\<not> fnmatch ''home'' ''archive''"
  by (simp_all add: fnmatch_def)

lemma mode_tests:
  "S_ISREG 33188" "\<not> S_ISDIR 33188" "S_ISDIR 16877" "\<not> S_ISREG 16877"
  by (simp_all add: S_ISREG_def S_ISDIR_def S_IFMT_def)

text \<open>
  C2, as the claim states it, fails: on a path whose parent directory the server does
  not have, both checks raise the error of the failed \<^verbatim>\<open>chdir\<close>.
\<close>

theorem exists_missing_parent_counterexample:
  "listing reports_server (fst (os_path_split ''/missing/in.csv'')) = None \<and>
   hook_file_exists (memory_platform reports_server) CommonFTPSHook None
       ''/missing/in.csv'' staging \<noteq> Inr False \<and>
   hook_folder_exists (memory_platform reports_server) CommonFTPSHook None
       ''/missing/in.csv'' staging \<noteq> Inr False"
  by (simp add: hook_file_exists_def hook_folder_exists_def
      file_exists_listing [OF memory_get_conn] folder_exists_listing [OF memory_get_conn]
      rstrip_def [of _ "''/missing/in.csv''"] split_missing listing_missing)

text \<open>
  C2, amended. Over SFTP, \<^verbatim>\<open>file_exists\<close> and \<^verbatim>\<open>folder_exists\<close> on a path whose
  parent directory does not exist on the server raise the \<^verbatim>\<open>IOError\<close> of the failed
  change of directory; when the parent directory exists they return whether an entry
  of the right kind in its listing matches the base name, so false when none does. The
  FTP hook implements neither check: both raise \<^verbatim>\<open>NotImplementedError\<close>.
\<close>

theorem exists_with_missing_parent:
  assumes "PySFTPHook_get_conn P cid w = Inr conn"
  shows
   "(listing conn (fst (os_path_split path)) = None \<longrightarrow>
       hook_file_exists P CommonFTPSHook cid path w
         = Inl (OSError ENOENT (fst (os_path_split path)))) \<and>
    (listing conn (fst (os_path_split (rstrip (CHR ''/'') path))) = None \<longrightarrow>
       hook_folder_exists P CommonFTPSHook cid path w
         = Inl (OSError ENOENT (fst (os_path_split (rstrip (CHR ''/'') path))))) \<and>
    (\<forall>es. listing conn (fst (os_path_split path)) = Some es \<longrightarrow>
       hook_file_exists P CommonFTPSHook cid path w
         = Inr (list_ex (\<lambda>a. S_ISREG (st_mode a) \<and>
                  fnmatch (filename a) (snd (os_path_split path))) es)) \<and>
    (\<forall>es. listing conn (fst (os_path_split (rstrip (CHR ''/'') path))) = Some es \<longrightarrow>
       hook_folder_exists P CommonFTPSHook cid path w
         = Inr (list_ex (\<lambda>a. S_ISDIR (st_mode a) \<and>
                  fnmatch (filename a) (snd (os_path_split (rstrip (CHR ''/'') path)))) es)) \<and>
    hook_file_exists P CommonFTPHook cid path w = Inl (NotImplementedError []) \<and>
    hook_folder_exists P CommonFTPHook cid path w = Inl (NotImplementedError [])"
  using assms
  by (simp add: hook_file_exists_def hook_folder_exists_def file_exists_listing
      folder_exists_listing)

theorem exists_with_missing_parent_witness:
  "PySFTPHook_get_conn (memory_platform reports_server) None staging = Inr reports_server \<and>
   listing reports_server (fst (os_path_split ''/missing/in.csv'')) = None \<and>
   hook_file_exists (memory_platform reports_server) CommonFTPSHook None
       ''/missing/in.csv'' staging = Inl (OSError ENOENT ''/missing'') \<and>
   hook_folder_exists (memory_platform reports_server) CommonFTPSHook None
       ''/missing/in.csv'' staging = Inl (OSError ENOENT ''/missing'') \<and>
   hook_file_exists (memory_platform reports_server) CommonFTPSHook None
       ''/data/invoice_*.csv'' staging = Inr False \<and>
   hook_folder_exists (memory_platform reports_server) CommonFTPSHook None
       ''/data/invoice_*.csv'' staging = Inr False"
proof -
  have strip: "rstrip (CHR ''/'') ''/missing/in.csv'' = ''/missing/in.csv''"
    "rstrip (CHR ''/'') ''/data/invoice_*.csv'' = ''/data/invoice_*.csv''"
    by (simp_all add: rstrip_def)
  have conn: "PySFTPHook_get_conn (memory_platform reports_server) None staging
                = Inr reports_server"
    by (rule memory_get_conn)
  from exists_with_missing_parent [OF conn, where path = "''/missing/in.csv''"]
       exists_with_missing_parent [OF conn, where path = "''/data/invoice_*.csv''"]
  show ?thesis
    by (simp add: memory_get_conn strip split_missing split_data_invoice listing_missing
        listing_data fnmatch_invoice_2024 fnmatch_invoice_2023)
qed

lemma match_basename_native_tests:
  "PySFTPHook_match_basename (replace_native_tests f g P) cid d pat mf w
     = PySFTPHook_match_basename P cid d pat mf w"
proof (cases "pysftp_Connection P cid w")
  case (Inl e)
  then show ?thesis
    by (simp add: PySFTPHook_match_basename_def PySFTPHook_get_conn_def
        replace_native_tests_def)
next
  case (Inr conn)
  then show ?thesis
    by (cases "listing conn d")
       (simp_all add: PySFTPHook_match_basename_def PySFTPHook_get_conn_def
          replace_native_tests_def sftp_chdir_def listdir_attr_def)
qed

lemma native_tests_unused:
  "PySFTPHook_file_exists (replace_native_tests f g P) cid path w
     = PySFTPHook_file_exists P cid path w"
  "PySFTPHook_folder_exists (replace_native_tests f g P) cid path w
     = PySFTPHook_folder_exists P cid path w"
  by (simp_all add: PySFTPHook_file_exists_def PySFTPHook_folder_exists_def
      match_basename_native_tests)

text \<open>
  C7. Over SFTP, when the listing of the parent directory holds exactly the regular
  files \<^verbatim>\<open>report_2024.csv\<close> and \<^verbatim>\<open>report_2023.csv\<close>, \<^verbatim>\<open>file_exists\<close> is true
  of the pattern \<^verbatim>\<open>report_*.csv\<close> in that directory and false of
  \<^verbatim>\<open>invoice_*.csv\<close>. The answer comes from the listing and the pattern alone:
  it is the same whatever the connection's native \<^verbatim>\<open>isfile\<close> and \<^verbatim>\<open>isdir\<close> say.
\<close>

theorem wildcard_file_exists:
  assumes conn: "PySFTPHook_get_conn P cid w = Inr conn"
    and report: "os_path_split report_path = (d, ''report_*.csv'')"
    and invoice: "os_path_split invoice_path = (d, ''invoice_*.csv'')"
    and dir: "listing conn d = Some es"
    and names: "set (map filename es) = {''report_2024.csv'', ''report_2023.csv''}"
    and regular: "list_all (\<lambda>a. S_ISREG (st_mode a)) es"
  shows "hook_file_exists P CommonFTPSHook cid report_path w = Inr True \<and>
         hook_file_exists P CommonFTPSHook cid invoice_path w = Inr False \<and>
         (\<forall>f g. hook_file_exists (replace_native_tests f g P) CommonFTPSHook cid report_path w
                  = Inr True \<and>
                hook_file_exists (replace_native_tests f g P) CommonFTPSHook cid invoice_path w
                  = Inr False)"
proof -
  have "''report_2024.csv'' \<in> set (map filename es)"
    unfolding names by (rule insertI1)
  then obtain a where a: "a \<in> set es" "filename a = ''report_2024.csv''"
    by auto
  from regular a(1) have "S_ISREG (st_mode a)"
    by (simp add: list_all_iff)
  with a have found:
    "list_ex (\<lambda>a. S_ISREG (st_mode a) \<and> fnmatch (filename a) ''report_*.csv'') es"
    unfolding list_ex_iff using fnmatch_report_2024 by (intro bexI [of _ a]) simp_all
  have no_invoice: "\<not> fnmatch (filename x) ''invoice_*.csv''" if "x \<in> set es" for x
  proof -
    from that have "filename x \<in> set (map filename es)"
      by simp
    then have "filename x = ''report_2024.csv'' \<or> filename x = ''report_2023.csv''"
      unfolding names by blast
    then show ?thesis
      using fnmatch_invoice_2024 fnmatch_invoice_2023 by (elim disjE) simp_all
  qed
  have none:
    "\<not> list_ex (\<lambda>a. S_ISREG (st_mode a) \<and> fnmatch (filename a) ''invoice_*.csv'') es"
    unfolding list_ex_iff using no_invoice by blast
  have r: "PySFTPHook_file_exists P cid report_path w = Inr True"
    using found by (simp add: file_exists_listing [OF conn] report dir)
  have i: "PySFTPHook_file_exists P cid invoice_path w = Inr False"
    using none by (simp add: file_exists_listing [OF conn] invoice dir)
  show ?thesis
    by (simp add: hook_file_exists_def native_tests_unused r i)
qed

theorem wildcard_file_exists_witness:
  "PySFTPHook_get_conn (memory_platform reports_server) None staging = Inr reports_server \<and>
   os_path_split ''/data/report_*.csv'' = (''/data'', ''report_*.csv'') \<and>
   os_path_split ''/data/invoice_*.csv'' = (''/data'', ''invoice_*.csv'') \<and>
   hook_file_exists (memory_platform reports_server) CommonFTPSHook None
       ''/data/report_*.csv'' staging = Inr True \<and>
   hook_file_exists (memory_platform reports_server) CommonFTPSHook None
       ''/data/invoice_*.csv'' staging = Inr False \<and>
   hook_file_exists (replace_native_tests (\<lambda>p. True) (\<lambda>p. True) (memory_platform reports_server))
       CommonFTPSHook None ''/data/invoice_*.csv'' staging = Inr False"
proof -
  have conn: "PySFTPHook_get_conn (memory_platform reports_server) None staging
                = Inr reports_server"
    by (rule memory_get_conn)
  have names:
    "set (map filename
       [\<lparr>filename = ''report_2024.csv'', st_mode = 33188\<rparr>,
        \<lparr>filename = ''report_2023.csv'', st_mode = 33188\<rparr>])
     = {''report_2024.csv'', ''report_2023.csv''}"
    by simp
  have regular:
    "list_all (\<lambda>a. S_ISREG (st_mode a))
       [\<lparr>filename = ''report_2024.csv'', st_mode = 33188\<rparr>,
        \<lparr>filename = ''report_2023.csv'', st_mode = 33188\<rparr>]"
    by (simp add: mode_tests)
  from wildcard_file_exists
         [OF conn split_data_report split_data_invoice listing_data names regular]
  show ?thesis
    by (simp add: conn split_data_report split_data_invoice)
qed

section \<open>Availability sensors\<close>

text \<open>
  C9. A check of either sensor builds the hook and returns what the hook's
  \<^verbatim>\<open>file_exists\<close> (for the folder sensor \<^verbatim>\<open>folder_exists\<close>) returns for the
  configured path: true when it is true, false when it is false, and its exception when
  it raises. The check leaves the world as the hook's constructor left it, which for
  every class but the S3 hook is the world it found.
\<close>

theorem sensors_return_hook_answer:
  "FileAvailabilitySensor_poke P self w =
     (case hook_init P (SourceHook self) (source_conn_id self) w of
        (Inl e, w1) \<Rightarrow> (Inl e, w1)
      | (Inr u, w1) \<Rightarrow>
          (hook_file_exists P (SourceHook self) (source_conn_id self) (source_path self) w1, w1)) \<and>
   FolderAvailabilitySensor_poke P self w =
     (case hook_init P (SourceHook self) (source_conn_id self) w of
        (Inl e, w1) \<Rightarrow> (Inl e, w1)
      | (Inr u, w1) \<Rightarrow>
          (hook_folder_exists P (SourceHook self) (source_conn_id self) (source_path self) w1, w1)) \<and>
   (SourceHook self \<noteq> CommonS3Hook \<longrightarrow>
      FileAvailabilitySensor_poke P self w =
        (hook_file_exists P (SourceHook self) (source_conn_id self) (source_path self) w, w) \<and>
      FolderAvailabilitySensor_poke P self w =
        (hook_folder_exists P (SourceHook self) (source_conn_id self) (source_path self) w, w))"
proof -
  have same: "(if found then Inr True else Inr False) = (Inr found :: error + bool)" for found
    by simp
  have file_eq: "FileAvailabilitySensor_poke P self w =
     (case hook_init P (SourceHook self) (source_conn_id self) w of
        (Inl e, w1) \<Rightarrow> (Inl e, w1)
      | (Inr u, w1) \<Rightarrow>
          (hook_file_exists P (SourceHook self) (source_conn_id self) (source_path self) w1, w1))"
    by (auto simp: FileAvailabilitySensor_poke_def FileAvailabilitySensor_check_source_def
        split: prod.splits sum.splits)
  have folder_eq: "FolderAvailabilitySensor_poke P self w =
     (case hook_init P (SourceHook self) (source_conn_id self) w of
        (Inl e, w1) \<Rightarrow> (Inl e, w1)
      | (Inr u, w1) \<Rightarrow>
          (hook_folder_exists P (SourceHook self) (source_conn_id self) (source_path self) w1, w1))"
    by (auto simp: FolderAvailabilitySensor_poke_def FolderAvailabilitySensor_check_source_def
        split: prod.splits sum.splits)
  have init: "hook_init P (SourceHook self) (source_conn_id self) w = (Inr (), w)"
    if "SourceHook self \<noteq> CommonS3Hook"
    using that by (cases "SourceHook self") (simp_all add: hook_init_def)
  show ?thesis
    unfolding file_eq folder_eq by (simp add: init)
qed

theorem sensors_return_hook_answer_witness:
  "SourceHook (sftp_sensor ''/data/report_*.csv'') \<noteq> CommonS3Hook \<and>
   FileAvailabilitySensor_poke (memory_platform reports_server)
       (sftp_sensor ''/data/report_*.csv'') staging = (Inr True, staging) \<and>
   FileAvailabilitySensor_poke (memory_platform reports_server)
       (sftp_sensor ''/data/invoice_*.csv'') staging = (Inr False, staging) \<and>
   FolderAvailabilitySensor_poke (memory_platform reports_server)
       (sftp_sensor ''/data'') staging = (Inr True, staging) \<and>
   FolderAvailabilitySensor_poke (memory_platform reports_server)
       (sftp_sensor ''/archive'') staging = (Inr False, staging)"
proof -
  let ?M = "memory_platform reports_server"
  let ?cid = "Some ''phl-ftp-etl''"
  have strip: "rstrip (CHR ''/'') ''/data'' = ''/data''"
    "rstrip (CHR ''/'') ''/archive'' = ''/archive''"
    by (simp_all add: rstrip_def)
  have not_s3: "SourceHook (sftp_sensor path) \<noteq> CommonS3Hook" for path
    by (simp add: sftp_sensor_def)
  have src: "SourceHook (sftp_sensor path) = CommonFTPSHook"
    "source_conn_id (sftp_sensor path) = ?cid" "source_path (sftp_sensor path) = path" for path
    by (simp_all add: sftp_sensor_def)
  have poke: "FileAvailabilitySensor_poke ?M (sftp_sensor path) staging
      = (hook_file_exists ?M CommonFTPSHook ?cid path staging, staging) \<and>
    FolderAvailabilitySensor_poke ?M (sftp_sensor path) staging
      = (hook_folder_exists ?M CommonFTPSHook ?cid path staging, staging)" for path
    using sensors_return_hook_answer [of ?M "sftp_sensor path" staging] not_s3 [of path]
    unfolding src by blast
  note poke_file = poke [THEN conjunct1] and poke_folder = poke [THEN conjunct2]
  have report: "hook_file_exists ?M CommonFTPSHook ?cid ''/data/report_*.csv'' staging = Inr True"
    by (simp add: hook_file_exists_def file_exists_listing [OF memory_get_conn]
        split_data_report listing_data mode_tests fnmatch_report_2024)
  have invoice: "hook_file_exists ?M CommonFTPSHook ?cid ''/data/invoice_*.csv'' staging = Inr False"
    by (simp add: hook_file_exists_def file_exists_listing [OF memory_get_conn]
        split_data_invoice listing_data fnmatch_invoice_2024 fnmatch_invoice_2023)
  have data: "hook_folder_exists ?M CommonFTPSHook ?cid ''/data'' staging = Inr True"
    by (simp add: hook_folder_exists_def folder_exists_listing [OF memory_get_conn]
        strip split_data listing_root mode_tests fnmatch_folders)
  have archive: "hook_folder_exists ?M CommonFTPSHook ?cid ''/archive'' staging = Inr False"
    by (simp add: hook_folder_exists_def folder_exists_listing [OF memory_get_conn]
        strip split_archive listing_root fnmatch_folders)
  show ?thesis
    by (simp add: not_s3 poke_file poke_folder report invoice data archive)
qed

section \<open>Cleanup\<close>

lemma delete_each_append:
  "delete_each del (ps @ qs) acc w =
     (case delete_each del ps acc w of
        (Inl e, att, w') \<Rightarrow> (Inl e, att, w')
      | (Inr u, att, w') \<Rightarrow> delete_each del qs att w')"
  by (induction ps arbitrary: acc w) (auto split: prod.splits sum.splits)

lemma delete_each_attempted:
  "delete_each del ps acc w = (r, att, w') \<Longrightarrow>
   (\<exists>n. att = acc @ take n ps) \<and> (r = Inr () \<longrightarrow> att = acc @ ps)"
proof (induction ps arbitrary: acc w)
  case Nil
  then show ?case by simp
next
  case (Cons p ps)
  show ?case
  proof (cases "del p w")
    case (Pair outcome w1)
    show ?thesis
    proof (cases outcome)
      case (Inl e)
      with Pair Cons.prems have "att = acc @ take 1 (p # ps)" "r = Inl e"
        by simp_all
      then show ?thesis by blast
    next
      case (Inr u)
      with Pair Cons.prems have "delete_each del ps (acc @ [p]) w1 = (r, att, w')"
        by simp
      from Cons.IH [OF this] obtain n where
        "att = (acc @ [p]) @ take n ps" "r = Inr () \<longrightarrow> att = (acc @ [p]) @ ps"
        by blast
      then have "att = acc @ take (Suc n) (p # ps)" "r = Inr () \<longrightarrow> att = acc @ p # ps"
        by simp_all
      then show ?thesis by blast
    qed
  qed
qed

text \<open>
  C5. The cleanup operator takes one path string (which the constructor turns into a
  one-element list) or a sequence of paths. \<^verbatim>\<open>execute\<close> calls \<^verbatim>\<open>conn.delete\<close> on the
  paths in the order given, without skipping any: the paths attempted are always an
  initial part of the sequence, and all of it when the run succeeds. When the paths
  before \<open>b\<close> are deleted and deleting \<open>b\<close> raises, \<^verbatim>\<open>execute\<close> raises that error
  with exactly those paths and \<open>b\<close> attempted, and the world is the one the failed
  call left: no later path is touched.
\<close>

theorem cleanup_in_order_and_fail_fast:
  assumes init: "CleanupOperator_init (Seq (ps @ b # qs)) cid ctype = Inr self"
    and hook: "hook_init P (ConnHook self) (conn_id self) w = (Inr (), w0)"
    and before: "delete_each (hook_delete P (ConnHook self)) ps [] w0 = (Inr (), ps, w1)"
    and fails: "hook_delete P (ConnHook self) b w1 = (Inl e, w2)"
  shows "CleanupOperator_execute P self w = (Inl e, ps @ [b], w2) \<and>
         CleanupOperator_init (Str s) cid ctype = CleanupOperator_init (Seq [s]) cid ctype \<and>
         (\<forall>xs r att w'.
            CleanupOperator_execute P (self\<lparr>paths := Seq xs\<rparr>) w = (r, att, w') \<longrightarrow>
              (\<exists>n. att = take n xs) \<and> (r = Inr () \<longrightarrow> att = xs))"
proof -
  from init have p: "paths self = Seq (ps @ b # qs)"
    by (auto simp: CleanupOperator_init_def split: sum.splits)
  have "delete_each (hook_delete P (ConnHook self)) (ps @ b # qs) [] w0 = (Inl e, ps @ [b], w2)"
    by (simp add: delete_each_append before fails)
  then have run: "CleanupOperator_execute P self w = (Inl e, ps @ [b], w2)"
    by (simp add: CleanupOperator_execute_def hook p)
  have single: "CleanupOperator_init (Str s) cid ctype = CleanupOperator_init (Seq [s]) cid ctype"
    by (simp add: CleanupOperator_init_def)
  have order: "(\<exists>n. att = take n xs) \<and> (r = Inr () \<longrightarrow> att = xs)"
    if "CleanupOperator_execute P (self\<lparr>paths := Seq xs\<rparr>) w = (r, att, w')"
    for xs r att w'
  proof -
    from that have "delete_each (hook_delete P (ConnHook self)) xs [] w0 = (r, att, w')"
      by (simp add: CleanupOperator_execute_def hook)
    from delete_each_attempted [OF this] show ?thesis
      by simp
  qed
  from run single order show ?thesis
    by blast
qed

theorem cleanup_in_order_and_fail_fast_witness:
  "CleanupOperator_init (Seq ([''a''] @ ''b'' # [''c''])) None ''local'' = Inr cleanup_abc \<and>
   map_of (mem_files staging) ''b'' = None \<and>
   CleanupOperator_execute (memory_platform reports_server) cleanup_abc staging
     = (Inl (OSError ENOENT ''b''), [''a''] @ [''b''], mem_remove ''a'' staging) \<and>
   map_of (mem_files (mem_remove ''a'' staging)) ''a'' = None \<and>
   map_of (mem_files (mem_remove ''a'' staging)) ''c'' = Some [3]"
proof -
  let ?M = "memory_platform reports_server"
  have init: "CleanupOperator_init (Seq ([''a''] @ ''b'' # [''c''])) None ''local''
                = Inr cleanup_abc"
    by (simp add: CleanupOperator_init_def by_type_cases cleanup_abc_def)
  have hook: "hook_init ?M (ConnHook cleanup_abc) (conn_id cleanup_abc) staging = (Inr (), staging)"
    by (simp add: hook_init_def cleanup_abc_def)
  have del_a: "hook_delete ?M (ConnHook cleanup_abc) ''a'' staging
                 = (Inr (), mem_remove ''a'' staging)"
    by (simp add: hook_delete_def cleanup_abc_def CommonFSHook_delete_def memory_platform_def
        mem_unlink_def staging_def)
  have before: "delete_each (hook_delete ?M (ConnHook cleanup_abc)) [''a''] [] staging
                  = (Inr (), [''a''], mem_remove ''a'' staging)"
    by (simp add: del_a)
  have fails: "hook_delete ?M (ConnHook cleanup_abc) ''b'' (mem_remove ''a'' staging)
                 = (Inl (OSError ENOENT ''b''), mem_remove ''a'' staging)"
    by (simp add: hook_delete_def cleanup_abc_def CommonFSHook_delete_def memory_platform_def
        mem_unlink_def mem_remove_def staging_def)
  from cleanup_in_order_and_fail_fast [OF init hook before fails]
  have "CleanupOperator_execute ?M cleanup_abc staging
          = (Inl (OSError ENOENT ''b''), [''a''] @ [''b''], mem_remove ''a'' staging)"
    by (rule conjunct1)
  then show ?thesis
    using init by (simp add: mem_remove_def staging_def)
qed

section \<open>Transform\<close>

lemma concat_readlines: "concat (readlines bs) = bs"
  by (induction bs) (auto split: list.splits)

lemma written_foldl_stream_write:
  "written (foldl stream_write dest chunks) = written dest @ chunks"
  by (induction chunks arbitrary: dest) (simp_all add: stream_write_def)

lemma transform_outcome:
  assumes "subprocess_run P
     ([transform_script self]
      @ (if \<not> use_stdin self then [name f_source] else [])
      @ (if \<not> use_stdout self then [name f_dest] else []))
     (if use_stdin self then Some (content f_source) else None)
     [(name f_source, content f_source), (name f_dest, content f_dest)] w = (Inr sp, w')"
  shows "FileTransformOperator_transform P self f_source f_dest w =
     (if returncode sp > 0 then Inl TypeError else Inr (),
      f_dest\<lparr>content :=
        (if use_stdout self then content f_dest @ stdout_data sp
         else (case map_of (files_written sp) (name f_dest) of
                 Some data \<Rightarrow> data
               | None \<Rightarrow> content f_dest))\<rparr>,
      w')"
  unfolding FileTransformOperator_transform_def Let_def assms
  by simp

text \<open>
  C1. The claim: when the command exits with a non-zero status, the step raises the
  transform error with the captured standard-error text in its message and writes
  nothing to the destination stream. The code, for every status above zero: the message
  is built as \<^verbatim>\<open>"Transform script failed " + self.sp.stderr\<close>, where the right operand
  is a byte string, so that expression raises \<^verbatim>\<open>TypeError\<close> and the
  \<^verbatim>\<open>AirflowException\<close> is never constructed; the error that leaves \<^verbatim>\<open>transfer\<close>
  carries no standard-error text. The destination stream is as it was, and both
  temporary files are closed.
\<close>

theorem transform_failure_raises_type_error:
  assumes "NamedTemporaryFile P w = (Inr n1, w1)"
    and "NamedTemporaryFile P w1 = (Inr n2, w2)"
    and "subprocess_run P
           ([transform_script self]
            @ (if \<not> use_stdin self then [n1] else [])
            @ (if \<not> use_stdout self then [n2] else []))
           (if use_stdin self then Some source else None)
           [(n1, source), (n2, [])] w2 = (Inr sp, w3)"
    and "returncode sp > 0"
  shows "FileTransformOperator_transfer P self source dest w =
           (Inl TypeError, dest, close_temporary P n1 (close_temporary P n2 w3))"
proof -
  let ?f_source = "\<lparr>name = n1, content = source\<rparr>"
  let ?f_dest = "\<lparr>name = n2, content = []\<rparr>"
  have "subprocess_run P
     ([transform_script self]
      @ (if \<not> use_stdin self then [name ?f_source] else [])
      @ (if \<not> use_stdout self then [name ?f_dest] else []))
     (if use_stdin self then Some (content ?f_source) else None)
     [(name ?f_source, content ?f_source), (name ?f_dest, content ?f_dest)] w2 = (Inr sp, w3)"
    unfolding temporary_file.select_convs by (rule assms(3))
  from transform_outcome [OF this] assms(4)
  have "\<exists>f. FileTransformOperator_transform P self ?f_source ?f_dest w2 = (Inl TypeError, f, w3)"
    by simp
  then obtain f where
    "FileTransformOperator_transform P self ?f_source ?f_dest w2 = (Inl TypeError, f, w3)"
    by blast
  then show ?thesis
    by (simp add: FileTransformOperator_transfer_def Let_def assms(1) assms(2))
qed

theorem transform_failure_raises_type_error_witness:
  "mem_run [''phl-properties''] (Some [120, 10]) [(''/tmp/tmp'', [120, 10]), (''/tmp/tmpx'', [])]
       (mem_new_temp (mem_new_temp staging))
     = (Inr \<lparr>returncode = 1, stderr = boom, stdout_data = [], files_written = []\<rparr>,
        mem_new_temp (mem_new_temp staging)) \<and>
   FileTransformOperator_transfer (memory_platform reports_server)
       (transform_with ''phl-properties'') [120, 10] \<lparr>written = []\<rparr> staging
     = (Inl TypeError, \<lparr>written = []\<rparr>,
        mem_remove ''/tmp/tmp'' (mem_remove ''/tmp/tmpx'' (mem_new_temp (mem_new_temp staging))))"
proof -
  let ?M = "memory_platform reports_server"
  let ?w2 = "mem_new_temp (mem_new_temp staging)"
  let ?sp = "\<lparr>returncode = 1, stderr = boom, stdout_data = [], files_written = []\<rparr>"
  have t1: "NamedTemporaryFile ?M staging = (Inr ''/tmp/tmp'', mem_new_temp staging)"
    by (simp add: memory_platform_def mem_NamedTemporaryFile_def mem_temp_name_def staging_def)
  have t2: "NamedTemporaryFile ?M (mem_new_temp staging) = (Inr ''/tmp/tmpx'', ?w2)"
    by (simp add: memory_platform_def mem_NamedTemporaryFile_def mem_temp_name_def
        mem_new_temp_def mem_put_def staging_def)
  have run: "subprocess_run ?M
           ([transform_script (transform_with ''phl-properties'')]
            @ (if \<not> use_stdin (transform_with ''phl-properties'') then [''/tmp/tmp''] else [])
            @ (if \<not> use_stdout (transform_with ''phl-properties'') then [''/tmp/tmpx''] else []))
           (if use_stdin (transform_with ''phl-properties'') then Some [120, 10] else None)
           [(''/tmp/tmp'', [120, 10]), (''/tmp/tmpx'', [])] ?w2 = (Inr ?sp, ?w2)"
    by (simp add: memory_platform_def mem_run_def transform_with_def)
  have failed: "returncode ?sp > 0"
    by simp
  from transform_failure_raises_type_error [OF t1 t2 run failed, of "\<lparr>written = []\<rparr>"]
  show ?thesis
    by (simp add: memory_platform_def mem_run_def)
qed

text \<open>
  The method \<^verbatim>\<open>transfer\<close> taken alone, handed a source whose \<^verbatim>\<open>read()\<close> returns
  \<open>source\<close> and a stream to write to: with the default wiring (input on standard
  input, output from standard output) and a command that copies its input to its
  output and exits with status 0, the chunks it writes make up the source content.
\<close>

lemma transfer_copies_identity_output:
  assumes "use_stdin self" and "use_stdout self"
    and "NamedTemporaryFile P w = (Inr n1, w1)"
    and "NamedTemporaryFile P w1 = (Inr n2, w2)"
    and "subprocess_run P [transform_script self] (Some source) [(n1, source), (n2, [])] w2
           = (Inr sp, w3)"
    and "returncode sp = 0" and "stdout_data sp = source"
  shows "FileTransformOperator_transfer P self source dest w =
           (Inr (), foldl stream_write dest (readlines source),
            close_temporary P n1 (close_temporary P n2 w3)) \<and>
         concat (written (foldl stream_write dest (readlines source)))
           = concat (written dest) @ source"
proof -
  let ?f_source = "\<lparr>name = n1, content = source\<rparr>"
  let ?f_dest = "\<lparr>name = n2, content = []\<rparr>"
  from assms(1,2,5) have "subprocess_run P
     ([transform_script self]
      @ (if \<not> use_stdin self then [name ?f_source] else [])
      @ (if \<not> use_stdout self then [name ?f_dest] else []))
     (if use_stdin self then Some (content ?f_source) else None)
     [(name ?f_source, content ?f_source), (name ?f_dest, content ?f_dest)] w2 = (Inr sp, w3)"
    by simp
  from transform_outcome [OF this] assms(2,6,7)
  have "FileTransformOperator_transform P self ?f_source ?f_dest w2
          = (Inr (), \<lparr>name = n2, content = source\<rparr>, w3)"
    by simp
  then have "FileTransformOperator_transfer P self source dest w =
           (Inr (), foldl stream_write dest (readlines source),
            close_temporary P n1 (close_temporary P n2 w3))"
    by (simp add: FileTransformOperator_transfer_def Let_def assms(3) assms(4))
  then show ?thesis
    by (simp add: written_foldl_stream_write concat_readlines)
qed

lemma transfer_copies_identity_output_examples:
  "use_stdin (transform_with ''cat'') \<and> use_stdout (transform_with ''cat'') \<and>
   FileTransformOperator_transfer (memory_platform reports_server)
       (transform_with ''cat'') [] \<lparr>written = []\<rparr> staging
     = (Inr (), \<lparr>written = []\<rparr>,
        mem_remove ''/tmp/tmp'' (mem_remove ''/tmp/tmpx'' (mem_new_temp (mem_new_temp staging)))) \<and>
   FileTransformOperator_transfer (memory_platform reports_server)
       (transform_with ''cat'') [120] \<lparr>written = []\<rparr> staging
     = (Inr (), \<lparr>written = [[120]]\<rparr>,
        mem_remove ''/tmp/tmp'' (mem_remove ''/tmp/tmpx'' (mem_new_temp (mem_new_temp staging)))) \<and>
   FileTransformOperator_transfer (memory_platform reports_server)
       (transform_with ''cat'') [120, 10, 121, 10, 122] \<lparr>written = []\<rparr> staging
     = (Inr (), \<lparr>written = [[120, 10], [121, 10], [122]]\<rparr>,
        mem_remove ''/tmp/tmp'' (mem_remove ''/tmp/tmpx'' (mem_new_temp (mem_new_temp staging)))) \<and>
   concat [[120, 10], [121, 10], [122]] = [120, 10, 121, 10, 122 :: byte]"
proof -
  let ?M = "memory_platform reports_server"
  let ?w2 = "mem_new_temp (mem_new_temp staging)"
  have flags: "use_stdin (transform_with ''cat'')" "use_stdout (transform_with ''cat'')"
    by (simp_all add: transform_with_def)
  have t1: "NamedTemporaryFile ?M staging = (Inr ''/tmp/tmp'', mem_new_temp staging)"
    by (simp add: memory_platform_def mem_NamedTemporaryFile_def mem_temp_name_def staging_def)
  have t2: "NamedTemporaryFile ?M (mem_new_temp staging) = (Inr ''/tmp/tmpx'', ?w2)"
    by (simp add: memory_platform_def mem_NamedTemporaryFile_def mem_temp_name_def
        mem_new_temp_def mem_put_def staging_def)
  have run: "subprocess_run ?M [transform_script (transform_with ''cat'')] (Some source)
           [(''/tmp/tmp'', source), (''/tmp/tmpx'', [])] ?w2
         = (Inr \<lparr>returncode = 0, stderr = [], stdout_data = source, files_written = []\<rparr>, ?w2)"
    for source
    by (simp add: memory_platform_def mem_run_def transform_with_def)
  have copies: "FileTransformOperator_transfer ?M (transform_with ''cat'') source
                  \<lparr>written = []\<rparr> staging
      = (Inr (), foldl stream_write \<lparr>written = []\<rparr> (readlines source),
         close_temporary ?M ''/tmp/tmp'' (close_temporary ?M ''/tmp/tmpx'' ?w2))" for source
    using transfer_copies_identity_output
            [OF flags t1 t2 run, of source "\<lparr>written = []\<rparr>"]
    by simp
  have closing: "close_temporary ?M = mem_remove"
    by (simp add: memory_platform_def)
  show ?thesis
    by (simp add: flags copies closing stream_write_def)
qed

section \<open>Executing the transform step\<close>

lemma open_rb:
  "CommonFTPHookMixin_open p ''rb'' =
     Inr (Some (open_for_read p
       \<lparr>is_binary = True, can_read = True, can_write = False, replace = False\<rparr>))"
  by (simp add: CommonFTPHookMixin_open_def parse_mode_def startswith_def Let_def)

lemma execute_ftp_source:
  "SourceHook self = CommonFTPHook \<or> SourceHook self = CommonFTPSHook \<Longrightarrow>
   FileTransformOperator_execute P self w = (Inl (NameError ''path''), w)"
  by (auto simp: FileTransformOperator_execute_def FileTransformOperator_open_source_def
      hook_init_def hook_open_def open_rb manager_enter_def stream_enter_def)

lemma transfer_line_fails:
  "\<exists>e w'. FileTransformOperator_transfer_objects P self (FileLine line) dest w = (Inl e, w')"
  by (simp add: FileTransformOperator_transfer_objects_def split: prod.splits sum.splits)

lemma exit_after_error: "\<exists>e'. manager_exit m (Inl e) = Inl e'"
  by (cases m) (simp_all add: manager_exit_def)

lemma inner_line_fails:
  "\<exists>e w'. FileTransformOperator_execute_inner P self (FileLine line) w = (Inl e, w')"
proof (cases "FileTransformOperator_open_dest P self w")
  case (Pair r1 w1)
  show ?thesis
  proof (cases r1)
    case (Inl e)
    with Pair show ?thesis
      by (simp add: FileTransformOperator_execute_inner_def)
  next
    case (Inr dm)
    show ?thesis
    proof (cases "manager_enter (FTPHook_store_file P (DestHook self) (dest_conn_id self)) dm w1")
      case entered: (Pair r2 w2)
      show ?thesis
      proof (cases r2)
        case (Inl e)
        with Pair Inr entered show ?thesis
          by (simp add: FileTransformOperator_execute_inner_def)
      next
        case dest: (Inr d)
        from transfer_line_fails [where P = P and self = self and line = line and dest = d
                                    and w = w2]
        obtain e w3 where
          "FileTransformOperator_transfer_objects P self (FileLine line) d w2 = (Inl e, w3)"
          by blast
        moreover from exit_after_error [where m = dm and e = e]
        obtain e' where "manager_exit dm (Inl e) = Inl e'"
          by blast
        ultimately show ?thesis
          using Pair Inr entered dest by (simp add: FileTransformOperator_execute_inner_def)
      qed
    qed
  qed
qed

lemma enter_file:
  "manager_enter store (FileManager f) w = (Inr source, w') \<Longrightarrow> \<exists>line. source = FileLine line"
  by (auto simp: manager_enter_def split: if_splits list.splits)

lemma execute_never_succeeds:
  "fst (FileTransformOperator_execute P self w) \<noteq> Inr ()"
proof (cases "SourceHook self")
  case CommonFTPHook
  then show ?thesis by (simp add: execute_ftp_source)
next
  case CommonFTPSHook
  then show ?thesis by (simp add: execute_ftp_source)
next
  case CommonS3Hook
  then show ?thesis
    by (simp add: FileTransformOperator_execute_def FileTransformOperator_open_source_def
        hook_open_def manager_enter_def split: prod.splits sum.splits)
next
  case CommonFSHook
  show ?thesis
  proof (cases "FileTransformOperator_open_source P self w")
    case (Pair r1 w1)
    show ?thesis
    proof (cases r1)
      case (Inl e)
      with Pair show ?thesis by (simp add: FileTransformOperator_execute_def)
    next
      case (Inr m)
      with Pair CommonFSHook obtain f where m: "m = FileManager f"
        by (auto simp: FileTransformOperator_open_source_def hook_open_def
            split: prod.splits sum.splits)
      show ?thesis
      proof (cases "manager_enter
                (FTPHook_store_file P (SourceHook self) (source_conn_id self)) m w1")
        case entered: (Pair r2 w2)
        show ?thesis
        proof (cases r2)
          case (Inl e)
          with Pair Inr entered show ?thesis by (simp add: FileTransformOperator_execute_def)
        next
          case src: (Inr source)
          from entered src m have "\<exists>line. source = FileLine line"
            by (auto dest: enter_file)
          then obtain line where "source = FileLine line"
            by blast
          with inner_line_fails [where P = P and self = self and line = line and w = w2]
          obtain e w3 where
            "FileTransformOperator_execute_inner P self source w2 = (Inl e, w3)"
            by blast
          with Pair Inr entered src m show ?thesis
            by (simp add: FileTransformOperator_execute_def manager_exit_def)
        qed
      qed
    qed
  qed
qed

lemma execute_sftp_to_ftp:
  "FileTransformOperator_execute (memory_platform reports_server) (transform_with ''cat'')
       staging_with_report
     = (Inl (NameError ''path''), staging_with_report)"
  by (rule execute_ftp_source) (simp add: transform_with_def)

lemma execute_local_to_ftp:
  "FileTransformOperator_execute (memory_platform reports_server)
       (transform_local_to_ftp ''cat'') staging_with_report
     = (Inl (AttributeError ''throw''),
        staging_with_report\<lparr>mem_ftp := [(''/out/report.csv'', [])], mem_temps := 1\<rparr>)"
  by (simp add: FileTransformOperator_execute_def FileTransformOperator_open_source_def
      FileTransformOperator_open_dest_def FileTransformOperator_execute_inner_def hook_init_def
      hook_open_def transform_local_to_ftp_def memory_platform_def mem_open_def startswith_def
      staging_with_report_def staging_def manager_enter_def stream_enter_def
      CommonFTPHookMixin_open_def parse_mode_def Let_def mem_ftp_store_def
      FileTransformOperator_transfer_objects_def mem_NamedTemporaryFile_def
      mem_temp_name_def mem_new_temp_def mem_put_def mem_remove_def manager_exit_def)

text \<open>
  C8. The claim: executing the transform step with a command that copies its input to
  its output leaves in the destination the content of the source. The code: no
  execution of the step succeeds, on any platform, for any pair of backends and any
  command. With an FTP or SFTP source, entering the source's \<^verbatim>\<open>with\<close> statement runs
  \<^verbatim>\<open>_open_for_read\<close>, which reads the unbound name \<^verbatim>\<open>path\<close>: \<^verbatim>\<open>execute\<close> raises
  \<^verbatim>\<open>NameError\<close> before the destination is opened or the command run, and the world
  is as it was. With a local source the \<^verbatim>\<open>with\<close> statement binds the first line of
  the file, on which \<^verbatim>\<open>source.read()\<close> raises; by then an FTP destination has been
  opened, which stores an empty file in its place. On the in-memory platform, with the
  command \<^verbatim>\<open>cat\<close>: from SFTP to FTP the destination keeps its old content
  \<^verbatim>\<open>[1, 2, 3]\<close>; from the local file \<^verbatim>\<open>/staging/in.csv\<close>, which holds
  \<^verbatim>\<open>[120, 10]\<close>, to FTP the destination ends up empty.
\<close>

theorem transform_step_never_copies:
  "fst (FileTransformOperator_execute P self w) \<noteq> Inr () \<and>
   FileTransformOperator_execute P (self\<lparr>SourceHook := CommonFTPHook\<rparr>) w
     = (Inl (NameError ''path''), w) \<and>
   FileTransformOperator_execute P (self\<lparr>SourceHook := CommonFTPSHook\<rparr>) w
     = (Inl (NameError ''path''), w) \<and>
   FileTransformOperator_execute (memory_platform reports_server) (transform_with ''cat'')
       staging_with_report
     = (Inl (NameError ''path''), staging_with_report) \<and>
   map_of (mem_ftp staging_with_report) ''/out/report.csv'' = Some [1, 2, 3] \<and>
   map_of (mem_files staging_with_report) ''/staging/in.csv'' = Some [120, 10] \<and>
   FileTransformOperator_execute (memory_platform reports_server)
       (transform_local_to_ftp ''cat'') staging_with_report
     = (Inl (AttributeError ''throw''),
        staging_with_report\<lparr>mem_ftp := [(''/out/report.csv'', [])], mem_temps := 1\<rparr>)"
proof -
  have ftp: "FileTransformOperator_execute P (self\<lparr>SourceHook := CommonFTPHook\<rparr>) w
     = (Inl (NameError ''path''), w)"
    by (rule execute_ftp_source) simp
  have sftp: "FileTransformOperator_execute P (self\<lparr>SourceHook := CommonFTPSHook\<rparr>) w
     = (Inl (NameError ''path''), w)"
    by (rule execute_ftp_source) simp
  have contents: "map_of (mem_ftp staging_with_report) ''/out/report.csv'' = Some [1, 2, 3]"
    "map_of (mem_files staging_with_report) ''/staging/in.csv'' = Some [120, 10]"
    by (simp_all add: staging_with_report_def staging_def)
  have never: "fst (FileTransformOperator_execute P self w) \<noteq> Inr ()"
    by (rule execute_never_succeeds)
  show ?thesis
    by (intro conjI never ftp sftp execute_sftp_to_ftp contents execute_local_to_ftp)
qed

end
